theory Spec2Isabelle
  imports Complex_Main "HOL-Library.Signed_Division"
begin

section \<open>Failures\<close>

text \<open>
  The C++ sources either return normally, throw an exception, trip an assertion or run into
  undefined behaviour.  Every function of the model that can leave the normal path returns
  \<open>failure + 'a\<close>, with \<open>Inl\<close> for the failure.  \<open>invalid_argument\<close> and
  \<open>runtime_error\<close> are the two \<^verbatim>\<open>std\<close> exceptions thrown in the sources and carry
  their message;  \<open>assertion_failed\<close> is a tripped \<^verbatim>\<open>assert\<close>;  the remaining
  constructors name operations whose behaviour the language leaves undefined (overflow of a
  signed \<^verbatim>\<open>int\<close>, remainder by zero, an index outside an array, \<^verbatim>\<open>front()\<close> of an
  empty vector).
\<close>

datatype failure =
    invalid_argument string
  | runtime_error string
  | assertion_failed
  | signed_overflow
  | division_by_zero
  | out_of_bounds
  | front_of_empty

section \<open>support/simd.hpp: splitting a loop into peel, vector and remainder sections\<close>

text \<open>
  \<^verbatim>\<open>split_loop_t\<close> stores four \<^verbatim>\<open>int\<close> fields.  An \<^verbatim>\<open>int\<close> is a 32-bit signed
  integer on every platform the library builds for;  the model computes on \<open>int\<close> and makes
  the representable range explicit, so that an operation that would leave the range is a
  \<open>signed_overflow\<close> failure instead of a silently wrong number.
\<close>

definition INT_MIN :: int where
  "INT_MIN = - 2147483648"

definition INT_MAX :: int where
  "INT_MAX = 2147483647"

definition is_int :: "int \<Rightarrow> bool" where
  "is_int k \<longleftrightarrow> INT_MIN \<le> k \<and> k \<le> INT_MAX"

text \<open>
  A pointer \<^verbatim>\<open>scalar_t const* p\<close> is its address together with \<^verbatim>\<open>sizeof(scalar_t)\<close>.
  \<^verbatim>\<open>p + k\<close> advances the address by \<open>k\<close> elements;  the address is read as a 64-bit
  \<^verbatim>\<open>std::uintptr_t\<close>.  \<^verbatim>\<open>is_aligned<bytes>(p)\<close> is
  \<^verbatim>\<open>reinterpret_cast<std::uintptr_t>(p) % bytes == 0\<close>, and
  \<^verbatim>\<open>basic_traits::align_bytes\<close> is 16.
\<close>

definition ptr_add :: "nat \<Rightarrow> int \<Rightarrow> int \<Rightarrow> int" where
  "ptr_add sizeof_scalar p k = (p + int sizeof_scalar * k) mod 2 ^ 64"

definition is_aligned :: "int \<Rightarrow> int \<Rightarrow> bool" where
  "is_aligned bytes p \<longleftrightarrow> p mod bytes = 0"

definition align_bytes :: int where
  "align_bytes = 16"

text \<open>The field \<^verbatim>\<open>end\<close> is written \<open>end'\<close>, because \<open>end\<close> is a keyword.\<close>

record split_loop_t =
  start :: int
  peel_end :: int
  vec_end :: int
  end' :: int

text \<open>
  First loop of \<^verbatim>\<open>split_loop\<close>:
  \<^verbatim>\<open>while (!is_aligned<bytes>(p + peel_end) && peel_end < end) { ++peel_end; }\<close>.
  The increment happens only below \<^verbatim>\<open>end\<close>, so it cannot overflow.
\<close>

function peel_loop :: "nat \<Rightarrow> int \<Rightarrow> int \<Rightarrow> int \<Rightarrow> int" where
  "peel_loop sizeof_scalar p pe e =
     (if \<not> is_aligned align_bytes (ptr_add sizeof_scalar p pe) \<and> pe < e
      then peel_loop sizeof_scalar p (pe + 1) e
      else pe)"
  by pat_completeness auto
termination
  by (relation "measure (\<lambda>(sizeof_scalar, p, pe, e). nat (e - pe))") auto

text \<open>
  Second loop: \<^verbatim>\<open>while ((vec_end - peel_end) % step != 0) { --vec_end; }\<close>.
  The difference and the decrement are \<^verbatim>\<open>int\<close> operations, \<^verbatim>\<open>%\<close> truncates towards
  zero (\<open>smod\<close>), and a zero divisor as well as \<^verbatim>\<open>INT_MIN % -1\<close> are undefined.
\<close>

function vec_loop :: "int \<Rightarrow> int \<Rightarrow> int \<Rightarrow> failure + int" where
  "vec_loop step pe ve =
     (if \<not> is_int (ve - pe) then Inl signed_overflow
      else if step = 0 then Inl division_by_zero
      else if ve - pe = INT_MIN \<and> step = - 1 then Inl signed_overflow
      else if (ve - pe) smod step \<noteq> 0
           then (if is_int (ve - 1) then vec_loop step pe (ve - 1) else Inl signed_overflow)
           else Inr ve)"
  by pat_completeness auto
termination
proof (relation "measure (\<lambda>(step, pe, ve). nat ((ve - pe) mod \<bar>step\<bar>))")
  show "wf (measure (\<lambda>(step, pe, ve). nat ((ve - pe) mod \<bar>step\<bar>)))"
    by simp
next
  fix step pe ve :: int
  assume nz: "step \<noteq> 0" and rem: "(ve - pe) smod step \<noteq> 0"
  let ?d = "ve - pe" and ?m = "\<bar>step\<bar>"
  have pos: "0 < ?m" using nz by simp
  have "?d \<noteq> 0" using rem by (auto simp: smod_int_alt_def)
  then have "\<bar>?d\<bar> mod ?m \<noteq> 0"
    using rem by (simp add: smod_int_alt_def sgn_if split: if_splits)
  then have "\<not> ?m dvd \<bar>?d\<bar>" by (simp only: dvd_eq_mod_eq_0 not_False_eq_True)
  then have "\<not> ?m dvd ?d" by simp
  then have nz': "?d mod ?m \<noteq> 0" by (simp only: dvd_eq_mod_eq_0 not_False_eq_True)
  have lo: "0 \<le> ?d mod ?m" and hi: "?d mod ?m < ?m" using pos by simp_all
  have "(?d - 1) mod ?m = (?d mod ?m - 1) mod ?m"
    by (simp add: mod_diff_left_eq)
  also have "\<dots> = ?d mod ?m - 1"
    using nz' lo hi by (intro mod_pos_pos_trivial) linarith+
  finally have "(ve - 1 - pe) mod ?m = ?d mod ?m - 1"
    by (simp add: algebra_simps)
  then show "((step, pe, ve - 1), (step, pe, ve))
               \<in> measure (\<lambda>(step, pe, ve). nat ((ve - pe) mod \<bar>step\<bar>))"
    using nz' lo by simp
qed

text \<open>
  \<^verbatim>\<open>split_loop<scalar_t, step>(p, start, end)\<close>.  The template arguments are the first
  two parameters: \<^verbatim>\<open>sizeof(scalar_t)\<close> and \<^verbatim>\<open>step\<close>.
\<close>

definition split_loop :: "nat \<Rightarrow> int \<Rightarrow> int \<Rightarrow> int \<Rightarrow> int \<Rightarrow> failure + split_loop_t" where
  "split_loop sizeof_scalar step p s e =
     (let pe = peel_loop sizeof_scalar p s e in
      case vec_loop step pe e of
        Inl err \<Rightarrow> Inl err
      | Inr ve \<Rightarrow> Inr \<lparr>start = s, peel_end = pe, vec_end = ve, end' = e\<rparr>)"

text \<open>
  \<^verbatim>\<open>split_loop_t::for_each(fn_scalar, fn_vector)\<close>.  The two callbacks act on whatever the
  caller captured;  the model passes that state \<open>'s\<close> through them.  The scalar loops
  \<^verbatim>\<open>for (auto i = lo; i < hi; ++i)\<close> always stop.  The vector loop
  \<^verbatim>\<open>for (auto i = peel_end; i < vec_end; i += step)\<close> need not (a step of zero never
  advances), so it is a partial function: \<open>None\<close> means that it does not return.
\<close>

function scalar_loop :: "(int \<Rightarrow> 's \<Rightarrow> 's) \<Rightarrow> int \<Rightarrow> int \<Rightarrow> 's \<Rightarrow> 's" where
  "scalar_loop fn_scalar i hi s =
     (if i < hi then scalar_loop fn_scalar (i + 1) hi (fn_scalar i s) else s)"
  by pat_completeness auto
termination
  by (relation "measure (\<lambda>(fn_scalar, i, hi, s). nat (hi - i))") auto

partial_function (option) vector_loop ::
  "int \<Rightarrow> (int \<Rightarrow> 's \<Rightarrow> 's) \<Rightarrow> int \<Rightarrow> int \<Rightarrow> 's \<Rightarrow> (failure + 's) option" where
  "vector_loop step fn_vector i ve s =
     (if i < ve
      then (if is_int (i + step) then vector_loop step fn_vector (i + step) ve (fn_vector i s)
            else Some (Inl signed_overflow))
      else Some (Inr s))"

definition for_each ::
  "int \<Rightarrow> (int \<Rightarrow> 's \<Rightarrow> 's) \<Rightarrow> (int \<Rightarrow> 's \<Rightarrow> 's) \<Rightarrow> split_loop_t \<Rightarrow> 's
   \<Rightarrow> (failure + 's) option" where
  "for_each step fn_scalar fn_vector sl s =
     (let s1 = scalar_loop fn_scalar (start sl) (peel_end sl) s in
      case vector_loop step fn_vector (peel_end sl) (vec_end sl) s1 of
        None \<Rightarrow> None
      | Some (Inl err) \<Rightarrow> Some (Inl err)
      | Some (Inr s2) \<Rightarrow> Some (Inr (scalar_loop fn_scalar (vec_end sl) (end' sl) s2)))"

text \<open>
  To speak about which indices a run of \<open>for_each\<close> touches, the callbacks are instantiated
  with recorders that append the call to a trace.  A scalar call at \<open>i\<close> handles the index
  \<open>i\<close>; a vector call at \<open>i\<close> handles the \<open>step\<close> indices from \<open>i\<close> on.
  \<open>vector_offsets\<close> lists the multiples of the step inside the vector section.
\<close>

datatype call = Scalar int | Vector int

definition record_scalar :: "int \<Rightarrow> call list \<Rightarrow> call list" where
  "record_scalar i tr = tr @ [Scalar i]"

definition record_vector :: "int \<Rightarrow> call list \<Rightarrow> call list" where
  "record_vector i tr = tr @ [Vector i]"

fun covered :: "int \<Rightarrow> call \<Rightarrow> int list" where
  "covered step (Scalar i) = [i]"
| "covered step (Vector i) = [i..i + step - 1]"

definition vector_offsets :: "int \<Rightarrow> int \<Rightarrow> int \<Rightarrow> int list" where
  "vector_offsets step pe ve = map (\<lambda>k. pe + step * int k) [0..<nat ((ve - pe) div step)]"

section \<open>kpm/Strategy.cpp: the KPM strategy\<close>

subsection \<open>Floating-point values\<close>

text \<open>
  \<^verbatim>\<open>Strategy.cpp\<close> compares the two energy bounds of the configuration with \<^verbatim>\<open>==\<close>
  and \<^verbatim>\<open>>\<close> and otherwise hands \<^verbatim>\<open>double\<close> values on to other components.  A
  \<^verbatim>\<open>double\<close> is a real number, an infinity or a NaN;  both zeros are the real number 0
  and compare equal.  \<open>double_eq\<close> and \<open>double_gt\<close> are the IEEE comparisons: a NaN is
  neither equal to nor greater than anything.  Arithmetic rounds and is not defined here;
  the one division of the file is a parameter (\<open>double_div\<close> below).
\<close>

datatype double = NaN | NegInf | Finite real | PosInf

fun double_eq :: "double \<Rightarrow> double \<Rightarrow> bool" where
  "double_eq NaN y = False"
| "double_eq x NaN = False"
| "double_eq x y = (x = y)"

fun double_gt :: "double \<Rightarrow> double \<Rightarrow> bool" where
  "double_gt NaN y = False"
| "double_gt x NaN = False"
| "double_gt NegInf y = False"
| "double_gt x NegInf = True"
| "double_gt PosInf y = (y \<noteq> PosInf)"
| "double_gt (Finite x) PosInf = False"
| "double_gt (Finite x) (Finite y) = (y < x)"

subsection \<open>Data declared outside the file\<close>

text \<open>
  Modelled from the spec: the \<^verbatim>\<open>Hamiltonian\<close> handle and the helpers
  \<^verbatim>\<open>ham::is<scalar_t>\<close> and \<^verbatim>\<open>ham::get_shared_ptr<scalar_t>\<close> are not part of the
  sources at hand.  The specification describes the operator as a sparse matrix over a
  scalar field, real or complex, and \<^verbatim>\<open>change_hamiltonian\<close> as accepting exactly the
  operators of the strategy's own field.  A handle is the matrix tagged with its field;
  \<open>ham_is\<close> compares the tag with the field the strategy was compiled for (the template
  argument \<^verbatim>\<open>scalar_t\<close>, a parameter of the model).
\<close>

datatype scalar_field = RealField | ComplexField

datatype 'm Hamiltonian = Hamiltonian (scalar_of: scalar_field) (matrix_of: 'm)

definition ham_is :: "scalar_field \<Rightarrow> 'm Hamiltonian \<Rightarrow> bool" where
  "ham_is scalar_t h \<longleftrightarrow> scalar_of h = scalar_t"

definition get_shared_ptr :: "scalar_field \<Rightarrow> 'm Hamiltonian \<Rightarrow> 'm" where
  "get_shared_ptr scalar_t h = matrix_of h"

text \<open>
  Modelled from the spec: \<^verbatim>\<open>Scale\<close> is the pair of scaling factors (a, b) returned by
  \<^verbatim>\<open>bounds.scaling_factors()\<close>;  its declaration is not part of the sources at hand.
  The fields are written \<open>scale_a\<close> and \<open>scale_b\<close>.
\<close>

record Scale =
  scale_a :: double
  scale_b :: double

text \<open>
  Modelled from the spec: \<^verbatim>\<open>Indices\<close> is the query index, a row together with one or
  more columns;  its declaration is not part of the sources at hand.  The braces
  \<^verbatim>\<open>{index, index}\<close> build the row \<open>index\<close> with the single column \<open>index\<close>, and
  \<^verbatim>\<open>{row, cols}\<close> the row with the given columns.
\<close>

record Indices =
  row :: int
  cols :: "int list"

text \<open>
  Modelled from the spec: the configuration read by the strategy (energy range, Lanczos
  precision, matrix format, algorithm options, kernel, number of random vectors) and the
  accumulated statistics;  their declarations are not part of the sources at hand.  Of
  \<^verbatim>\<open>AlgorithmConfig\<close> the file reads and writes the flag \<^verbatim>\<open>optimal_size\<close> and calls
  \<^verbatim>\<open>reorder()\<close>;  of \<^verbatim>\<open>Stats\<close> it writes \<^verbatim>\<open>multiplier\<close> and drives
  \<^verbatim>\<open>moments_timer\<close>.  Whatever else \<^verbatim>\<open>Stats\<close> holds lives in the extension part of
  the record (type \<open>('t, 'z) Stats_scheme\<close>).
\<close>

datatype MatrixFormat = CSR | ELL

record AlgorithmConfig =
  optimal_size :: bool

record 'k Config =
  min_energy :: double
  max_energy :: double
  lanczos_precision :: double
  matrix_format :: MatrixFormat
  algorithm :: AlgorithmConfig
  kernel :: 'k
  num_random :: int

record 't Stats =
  multiplier :: int
  moments_timer :: 't

text \<open>
  The members of \<^verbatim>\<open>StrategyTemplate<scalar_t>\<close> that the file initialises and assigns:
  the shared matrix, the configuration, the bounds, the optimised matrix and the statistics.
\<close>

record ('m, 'k, 'b, 'o, 's) Strategy =
  hamiltonian :: 'm
  config :: "'k Config"
  bounds :: 'b
  optimized_hamiltonian :: 'o
  stats :: 's

subsection \<open>Collaborators\<close>

text \<open>
  Everything else the file calls is defined in headers that are not part of the sources at
  hand.  These operations are parameters of the model, collected in one record, one field
  per operation and one type variable per C++ class:
  \<open>'m\<close> the sparse matrix, \<open>'b\<close> \<^verbatim>\<open>Bounds\<close>, \<open>'o\<close> \<^verbatim>\<open>OptimizedHamiltonian\<close>,
  \<open>'k\<close> the kernel, \<open>'a\<close> an array of moments (\<^verbatim>\<open>ArrayX<scalar_t>\<close>),
  \<open>'d\<close> \<^verbatim>\<open>DiagonalMoments\<close>, \<open>'f\<close> \<^verbatim>\<open>OffDiagonalMoments\<close>, \<open>'v\<close> a starter vector,
  \<open>'g\<close> the state of \<^verbatim>\<open>std::mt19937\<close>, \<open>'t\<close> the timer.
  An operation that changes an object in place returns the changed object:
  \<open>scaling_factors\<close> returns the factors and the bounds (which may cache them),
  \<open>optimize_for\<close> and \<open>populate_stats\<close> return the new optimised matrix and statistics,
  \<open>compute_diagonal\<close> and \<open>compute_off_diagonal\<close> the filled moments,
  \<open>random_starter\<close> the starter and the advanced generator.  \<open>mt19937\<close> is the state of a
  default-constructed generator.  The timer operations read the clock;  nothing in the
  file reads the timer back.  \<^verbatim>\<open>ArrayXd\<close> is a list of doubles and \<^verbatim>\<open>ArrayXcd\<close> a
  list of pairs (real and imaginary part).
\<close>

record ('m, 'b, 'o, 'k, 'a, 'd, 'f, 'v, 'g, 't, 'z) collaborators =
  Bounds_auto :: "'m \<Rightarrow> double \<Rightarrow> 'b"
  Bounds_fixed :: "double \<Rightarrow> double \<Rightarrow> 'b"
  scaling_factors :: "'b \<Rightarrow> Scale \<times> 'b"
  OptimizedHamiltonian :: "'m \<Rightarrow> MatrixFormat \<Rightarrow> bool \<Rightarrow> 'o"
  reorder :: "AlgorithmConfig \<Rightarrow> bool"
  Stats_default :: "('t, 'z) Stats_scheme"
  required_num_moments :: "'k \<Rightarrow> double \<Rightarrow> int"
  kernel_apply :: "'k \<Rightarrow> 'a \<Rightarrow> 'a"
  double_div :: "double \<Rightarrow> double \<Rightarrow> double"
  optimize_for :: "'o \<Rightarrow> Indices \<Rightarrow> Scale \<Rightarrow> 'o"
  populate_stats ::
    "'o \<Rightarrow> ('t, 'z) Stats_scheme \<Rightarrow> int \<Rightarrow> AlgorithmConfig \<Rightarrow> ('t, 'z) Stats_scheme"
  idx :: "'o \<Rightarrow> Indices"
  is_diagonal :: "Indices \<Rightarrow> bool"
  tic :: "'t \<Rightarrow> 't"
  toc :: "'t \<Rightarrow> 't"
  DiagonalMoments :: "int \<Rightarrow> 'd"
  diagonal_get :: "'d \<Rightarrow> 'a"
  OffDiagonalMoments :: "int \<Rightarrow> Indices \<Rightarrow> 'f"
  off_diagonal_get :: "'f \<Rightarrow> 'a list"
  exval_starter :: "'o \<Rightarrow> 'v"
  random_starter :: "'o \<Rightarrow> 'g \<Rightarrow> 'v \<times> 'g"
  mt19937 :: 'g
  compute_diagonal :: "'d \<Rightarrow> 'v \<Rightarrow> 'o \<Rightarrow> AlgorithmConfig \<Rightarrow> 'd"
  compute_off_diagonal :: "'f \<Rightarrow> 'v \<Rightarrow> 'o \<Rightarrow> AlgorithmConfig \<Rightarrow> 'f"
  array_real :: "'a \<Rightarrow> double list"
  array_add :: "'a \<Rightarrow> 'a \<Rightarrow> 'a"
  array_div :: "'a \<Rightarrow> double \<Rightarrow> 'a"
  real_t_of_int :: "int \<Rightarrow> double"
  reconstruct :: "double list \<Rightarrow> double list \<Rightarrow> Scale \<Rightarrow> double list"
  reconstruct_greens :: "'a \<Rightarrow> double list \<Rightarrow> Scale \<Rightarrow> (double \<times> double) list"

subsection \<open>The functions of the file\<close>

text \<open>\<^verbatim>\<open>reset_bounds(hamiltonian, config)\<close> of the anonymous namespace.\<close>

definition reset_bounds ::
  "('m, 'b, 'o, 'k, 'a, 'd, 'f, 'v, 'g, 't, 'z) collaborators \<Rightarrow> 'm \<Rightarrow> 'k Config \<Rightarrow> 'b" where
  "reset_bounds X h cfg =
     (if double_eq (min_energy cfg) (max_energy cfg)
      then Bounds_auto X h (lanczos_precision cfg)
      else Bounds_fixed X (min_energy cfg) (max_energy cfg))"

text \<open>
  The constructor: the member initialisers run first, then the body throws when the energy
  range is inverted.  A constructor that throws produces no object.
\<close>

definition StrategyTemplate_ctor ::
  "('m, 'b, 'o, 'k, 'a, 'd, 'f, 'v, 'g, 't, 'z) collaborators \<Rightarrow> 'm \<Rightarrow> 'k Config
   \<Rightarrow> failure + ('m, 'k, 'b, 'o, ('t, 'z) Stats_scheme) Strategy" where
  "StrategyTemplate_ctor X h cfg =
     (let this = \<lparr>hamiltonian = h, config = cfg, bounds = reset_bounds X h cfg,
                  optimized_hamiltonian =
                    OptimizedHamiltonian X h (matrix_format cfg) (reorder X (algorithm cfg)),
                  stats = Stats_default X\<rparr>
      in if double_gt (min_energy cfg) (max_energy cfg)
         then Inl (invalid_argument ''KPM: Invalid energy range specified (min > max).'')
         else Inr this)"

text \<open>\<^verbatim>\<open>change_hamiltonian(h)\<close>: the returned flag and the strategy afterwards.\<close>

definition change_hamiltonian ::
  "scalar_field \<Rightarrow> ('m, 'b, 'o, 'k, 'a, 'd, 'f, 'v, 'g, 't, 'z) collaborators
   \<Rightarrow> ('m, 'k, 'b, 'o, 's) Strategy \<Rightarrow> 'm Hamiltonian
   \<Rightarrow> bool \<times> ('m, 'k, 'b, 'o, 's) Strategy" where
  "change_hamiltonian scalar_t X this h =
     (if \<not> ham_is scalar_t h then (False, this)
      else
        let this1 = this\<lparr>hamiltonian := get_shared_ptr scalar_t h\<rparr>;
            this2 = this1\<lparr>optimized_hamiltonian :=
                      OptimizedHamiltonian X (hamiltonian this1) (matrix_format (config this1))
                        (reorder X (algorithm (config this1)))\<rparr>;
            this3 = this2\<lparr>bounds := reset_bounds X (hamiltonian this2) (config this2)\<rparr>
        in (True, this3))"

text \<open>\<^verbatim>\<open>ldos(index, energy, broadening)\<close>: the result array and the strategy afterwards.\<close>

definition ldos ::
  "('m, 'b, 'o, 'k, 'a, 'd, 'f, 'v, 'g, 't, 'z) collaborators
   \<Rightarrow> ('m, 'k, 'b, 'o, ('t, 'z) Stats_scheme) Strategy \<Rightarrow> int \<Rightarrow> double list \<Rightarrow> double
   \<Rightarrow> double list \<times> ('m, 'k, 'b, 'o, ('t, 'z) Stats_scheme) Strategy" where
  "ldos X this index energy broadening =
     (let (scale, bounds1) = scaling_factors X (bounds this);
          num_moments = required_num_moments X (kernel (config this))
                          (double_div X broadening (scale_a scale));
          oh = optimize_for X (optimized_hamiltonian this) \<lparr>row = index, cols = [index]\<rparr> scale;
          stats1 = populate_stats X oh (stats this) num_moments (algorithm (config this));
          moments = DiagonalMoments X num_moments;
          stats2 = stats1\<lparr>moments_timer := tic X (moments_timer stats1)\<rparr>;
          moments1 = compute_diagonal X moments (exval_starter X oh) oh (algorithm (config this));
          stats3 = stats2\<lparr>moments_timer := toc X (moments_timer stats2)\<rparr>;
          damped = kernel_apply X (kernel (config this)) (diagonal_get X moments1)
      in (reconstruct X (array_real X damped) energy scale,
          this\<lparr>bounds := bounds1, optimized_hamiltonian := oh, stats := stats3\<rparr>))"

text \<open>
  \<^verbatim>\<open>greens_vector(row, cols, energy, broadening)\<close>.  The \<^verbatim>\<open>assert\<close> on the columns is
  the first statement;  \<^verbatim>\<open>transform<std::vector>\<close> maps a function over a container.
\<close>

definition greens_vector ::
  "('m, 'b, 'o, 'k, 'a, 'd, 'f, 'v, 'g, 't, 'z) collaborators
   \<Rightarrow> ('m, 'k, 'b, 'o, ('t, 'z) Stats_scheme) Strategy \<Rightarrow> int \<Rightarrow> int list \<Rightarrow> double list
   \<Rightarrow> double
   \<Rightarrow> failure + (double \<times> double) list list \<times> ('m, 'k, 'b, 'o, ('t, 'z) Stats_scheme) Strategy"
  where
  "greens_vector X this r cs energy broadening =
     (if cs = [] then Inl assertion_failed
      else
        let (scale, bounds1) = scaling_factors X (bounds this);
            num_moments = required_num_moments X (kernel (config this))
                            (double_div X broadening (scale_a scale));
            oh = optimize_for X (optimized_hamiltonian this) \<lparr>row = r, cols = cs\<rparr> scale;
            stats1 = populate_stats X oh (stats this) num_moments (algorithm (config this))
        in if is_diagonal X (idx X oh) then
             let moments = DiagonalMoments X num_moments;
                 stats2 = stats1\<lparr>moments_timer := tic X (moments_timer stats1)\<rparr>;
                 moments1 = compute_diagonal X moments (exval_starter X oh) oh
                              (algorithm (config this));
                 stats3 = stats2\<lparr>moments_timer := toc X (moments_timer stats2)\<rparr>;
                 damped = kernel_apply X (kernel (config this)) (diagonal_get X moments1)
             in Inr ([reconstruct_greens X damped energy scale],
                     this\<lparr>bounds := bounds1, optimized_hamiltonian := oh, stats := stats3\<rparr>)
           else
             let moments_vector = OffDiagonalMoments X num_moments (idx X oh);
                 stats2 = stats1\<lparr>moments_timer := tic X (moments_timer stats1)\<rparr>;
                 moments_vector1 = compute_off_diagonal X moments_vector (exval_starter X oh) oh
                                     (algorithm (config this));
                 stats3 = stats2\<lparr>moments_timer := toc X (moments_timer stats2)\<rparr>;
                 damped = map (kernel_apply X (kernel (config this)))
                            (off_diagonal_get X moments_vector1)
             in Inr (map (\<lambda>moments. reconstruct_greens X moments energy scale) damped,
                     this\<lparr>bounds := bounds1, optimized_hamiltonian := oh, stats := stats3\<rparr>))"

text \<open>
  \<^verbatim>\<open>greens(row, col, energy, broadening)\<close> moves out the \<^verbatim>\<open>front()\<close> of the vector that
  \<^verbatim>\<open>greens_vector(row, {col}, energy, broadening)\<close> returns.
\<close>

definition greens ::
  "('m, 'b, 'o, 'k, 'a, 'd, 'f, 'v, 'g, 't, 'z) collaborators
   \<Rightarrow> ('m, 'k, 'b, 'o, ('t, 'z) Stats_scheme) Strategy \<Rightarrow> int \<Rightarrow> int \<Rightarrow> double list
   \<Rightarrow> double
   \<Rightarrow> failure + (double \<times> double) list \<times> ('m, 'k, 'b, 'o, ('t, 'z) Stats_scheme) Strategy"
  where
  "greens X this r c energy broadening =
     (case greens_vector X this r [c] energy broadening of
        Inl e \<Rightarrow> Inl e
      | Inr ([], this1) \<Rightarrow> Inl front_of_empty
      | Inr (g # gs, this1) \<Rightarrow> Inr (g, this1))"

text \<open>
  The loop of \<^verbatim>\<open>dos\<close>:
  \<^verbatim>\<open>for (auto j = 0; j < config.num_random; ++j) { compute(moments, random_starter(oh, generator), oh, specialized_algorithm); total += moments.get(); }\<close>.
  The loop variables are the moments object, the generator and the running total
  (written \<open>total'\<close>).
\<close>

function dos_loop ::
  "('m, 'b, 'o, 'k, 'a, 'd, 'f, 'v, 'g, 't, 'z) collaborators \<Rightarrow> int \<Rightarrow> int \<Rightarrow> 'o
   \<Rightarrow> AlgorithmConfig \<Rightarrow> 'd \<Rightarrow> 'g \<Rightarrow> 'a \<Rightarrow> 'd \<times> 'g \<times> 'a" where
  "dos_loop X j n oh alg moments generator total' =
     (if j < n then
        let (starter, generator1) = random_starter X oh generator;
            moments1 = compute_diagonal X moments starter oh alg;
            total1 = array_add X total' (diagonal_get X moments1)
        in dos_loop X (j + 1) n oh alg moments1 generator1 total1
      else (moments, generator, total'))"
  by pat_completeness auto
termination
  by (relation "measure (\<lambda>(X, j, n, oh, alg, moments, generator, total'). nat (n - j))") auto

text \<open>
  \<^verbatim>\<open>dos(energy, broadening)\<close>: the result array and the strategy afterwards.  The
  generator is a local variable, default-constructed in every call.
\<close>

definition dos ::
  "('m, 'b, 'o, 'k, 'a, 'd, 'f, 'v, 'g, 't, 'z) collaborators
   \<Rightarrow> ('m, 'k, 'b, 'o, ('t, 'z) Stats_scheme) Strategy \<Rightarrow> double list \<Rightarrow> double
   \<Rightarrow> double list \<times> ('m, 'k, 'b, 'o, ('t, 'z) Stats_scheme) Strategy" where
  "dos X this energy broadening =
     (let (scale, bounds1) = scaling_factors X (bounds this);
          num_moments = required_num_moments X (kernel (config this))
                          (double_div X broadening (scale_a scale));
          specialized_algorithm = (algorithm (config this))\<lparr>optimal_size := False\<rparr>;
          oh = optimize_for X (optimized_hamiltonian this) \<lparr>row = 0, cols = [0]\<rparr> scale;
          stats1 = populate_stats X oh (stats this) num_moments specialized_algorithm;
          moments = DiagonalMoments X num_moments;
          total' = diagonal_get X moments;
          stats2 = stats1\<lparr>multiplier := num_random (config this)\<rparr>;
          stats3 = stats2\<lparr>moments_timer := tic X (moments_timer stats2)\<rparr>;
          (moments1, generator1, total1) =
             dos_loop X 0 (num_random (config this)) oh specialized_algorithm moments
               (mt19937 X) total';
          total2 = array_div X total1 (real_t_of_int X (num_random (config this)));
          stats4 = stats3\<lparr>moments_timer := toc X (moments_timer stats3)\<rparr>;
          damped = kernel_apply X (kernel (config this)) total2
      in (reconstruct X (array_real X damped) energy scale,
          this\<lparr>bounds := bounds1, optimized_hamiltonian := oh, stats := stats4\<rparr>))"

text \<open>
  The loop of \<^verbatim>\<open>dos\<close> pass by pass.  \<open>starters\<close> are the starter vectors that
  \<^verbatim>\<open>random_starter\<close> draws in turn from a generator.  \<open>passes\<close> are the arrays that the
  one moments object of the loop holds after each call of \<^verbatim>\<open>compute\<close>, which is what the
  loop adds to \<^verbatim>\<open>total\<close>: every call works on the object as the call before left it.
\<close>

fun starters ::
  "('m, 'b, 'o, 'k, 'a, 'd, 'f, 'v, 'g, 't, 'z) collaborators \<Rightarrow> nat \<Rightarrow> 'o \<Rightarrow> 'g \<Rightarrow> 'v list"
  where
  "starters X 0 oh generator = []"
| "starters X (Suc k) oh generator =
     (let (starter, generator1) = random_starter X oh generator
      in starter # starters X k oh generator1)"

fun passes ::
  "('m, 'b, 'o, 'k, 'a, 'd, 'f, 'v, 'g, 't, 'z) collaborators \<Rightarrow> 'o \<Rightarrow> AlgorithmConfig
   \<Rightarrow> 'd \<Rightarrow> 'v list \<Rightarrow> 'a list" where
  "passes X oh alg moments [] = []"
| "passes X oh alg moments (starter # rest) =
     (let moments1 = compute_diagonal X moments starter oh alg
      in diagonal_get X moments1 # passes X oh alg moments1 rest)"




text \<open>
  The specification's description of the generator, to compare \<open>dos\<close> with: the state of
  the generator is owned by the strategy instance, seeded once for the instance and passed
  alongside it.  A query takes the instance with its generator, draws the starters from
  that generator and leaves the advanced generator with the instance.  Everything else is
  as in \<open>dos\<close>.
\<close>

definition dos_seeded_per_instance ::
  "('m, 'b, 'o, 'k, 'a, 'd, 'f, 'v, 'g, 't, 'z) collaborators
   \<Rightarrow> ('m, 'k, 'b, 'o, ('t, 'z) Stats_scheme) Strategy \<times> 'g \<Rightarrow> double list \<Rightarrow> double
   \<Rightarrow> double list \<times> ('m, 'k, 'b, 'o, ('t, 'z) Stats_scheme) Strategy \<times> 'g" where
  "dos_seeded_per_instance X instance' energy broadening =
     (let (this, generator) = instance';
          (scale, bounds1) = scaling_factors X (bounds this);
          num_moments = required_num_moments X (kernel (config this))
                          (double_div X broadening (scale_a scale));
          specialized_algorithm = (algorithm (config this))\<lparr>optimal_size := False\<rparr>;
          oh = optimize_for X (optimized_hamiltonian this) \<lparr>row = 0, cols = [0]\<rparr> scale;
          stats1 = populate_stats X oh (stats this) num_moments specialized_algorithm;
          moments = DiagonalMoments X num_moments;
          total' = diagonal_get X moments;
          stats2 = stats1\<lparr>multiplier := num_random (config this)\<rparr>;
          stats3 = stats2\<lparr>moments_timer := tic X (moments_timer stats2)\<rparr>;
          (moments1, generator1, total1) =
             dos_loop X 0 (num_random (config this)) oh specialized_algorithm moments
               generator total';
          total2 = array_div X total1 (real_t_of_int X (num_random (config this)));
          stats4 = stats3\<lparr>moments_timer := toc X (moments_timer stats3)\<rparr>;
          damped = kernel_apply X (kernel (config this)) total2
      in (reconstruct X (array_real X damped) energy scale,
          this\<lparr>bounds := bounds1, optimized_hamiltonian := oh, stats := stats4\<rparr>, generator1))"

text \<open>
  The specification's description of the number of moments, to compare the three queries
  with: the requested broadening, divided by the scale factor a of the current bounds, is
  handed to the kernel's \<^verbatim>\<open>required_num_moments\<close>.
\<close>

definition num_moments_for ::
  "('m, 'b, 'o, 'k, 'a, 'd, 'f, 'v, 'g, 't, 'z) collaborators
   \<Rightarrow> ('m, 'k, 'b, 'o, 's) Strategy \<Rightarrow> double \<Rightarrow> int" where
  "num_moments_for X this broadening =
     required_num_moments X (kernel (config this))
       (double_div X broadening (scale_a (fst (scaling_factors X (bounds this)))))"

section \<open>system/System.cpp: building the system\<close>

text \<open>
  \<^verbatim>\<open>System\<close> is declared in \<^verbatim>\<open>system/System.hpp\<close>: the lattice, the positions, the
  compressed sublattices, the hopping blocks and the boundaries.  \<^verbatim>\<open>Boundary\<close> has hopping
  blocks of its own and a shift.  The classes behind these members (\<^verbatim>\<open>Lattice\<close>,
  \<^verbatim>\<open>CartesianArray\<close>, \<^verbatim>\<open>CompressedSublattices\<close>, \<^verbatim>\<open>HoppingBlocks\<close>) and the inputs of
  the constructor (\<^verbatim>\<open>Foundation\<close>, \<^verbatim>\<open>TranslationalSymmetry\<close>, the hopping generators) are
  declared in headers that are not part of the sources at hand.  The array of positions is a
  list of positions \<open>'pos\<close>;  the other classes are type variables and their operations
  parameters, as for the strategy.

  The constructor reads a foundation through its lattice, through the finalized indices
  (their \<^verbatim>\<open>size()\<close> and, per site, \<^verbatim>\<open>finalized_indices[site]\<close>) and by iterating over
  the sites and over the neighbours of a site.  The records below hold exactly what is
  read: a site carries its finalized index, its position, alias and number of orbitals and,
  for every neighbour that \<^verbatim>\<open>for_each_neighbor\<close> visits, the neighbour's finalized index
  and the hopping.  A translation carries the sites of its boundary slice, each as its
  finalized index with the neighbours of the shifted site, and the shift length (spelt
  \<^verbatim>\<open>shift_lenght\<close> in the source).
\<close>

record Hopping =
  family_id :: int
  is_conjugate :: bool

record 'pos Site =
  finalized_index :: int
  get_position :: 'pos
  get_alias_id :: int
  get_norb :: int
  neighbors :: "(int \<times> Hopping) list"

record ('lat, 'pos) Foundation =
  get_lattice :: 'lat
  finalized_size :: nat
  max_hoppings_per_family :: "int list"
  sites :: "'pos Site list"

record 'pos Translation =
  boundary_slice :: "(int \<times> (int \<times> Hopping) list) list"
  shift_lenght :: 'pos

text \<open>A hopping generator has a name and a function \<^verbatim>\<open>make\<close>, written \<open>gen_make\<close>.\<close>

record ('pos, 'subs, 'nm) HoppingGenerator =
  name :: string
  gen_make :: "'pos list \<Rightarrow> 'subs \<Rightarrow> 'nm \<Rightarrow> int list \<times> int list"

record ('hb, 'pos) Boundary =
  hopping_blocks :: 'hb
  shift :: 'pos

record ('lat, 'pos, 'cs, 'hb) System =
  lattice :: 'lat
  positions :: "'pos list"
  compressed_sublattices :: 'cs
  hopping_blocks :: 'hb
  boundaries :: "('hb, 'pos) Boundary list"

text \<open>
  The operations of the absent classes: default-constructed members, the constructor and
  the methods of \<^verbatim>\<open>HoppingBlocks\<close>, the methods of \<^verbatim>\<open>CompressedSublattices\<close>
  (\<^verbatim>\<open>verify\<close> may throw), the name maps and the hopping families of the lattice (the lookup
  by name may throw), and the symmetry: its conversion to \<^verbatim>\<open>bool\<close> and the translations
  it yields for a foundation.
\<close>

record ('lat, 'pos, 'cs, 'hb, 'sym, 'nm, 'subs) system_collaborators =
  Cartesian_default :: 'pos
  CompressedSublattices_default :: 'cs
  HoppingBlocks_default :: 'hb
  HoppingBlocks :: "nat \<Rightarrow> 'nm \<Rightarrow> 'hb"
  hb_reserve :: "'hb \<Rightarrow> int list \<Rightarrow> 'hb"
  hb_add :: "'hb \<Rightarrow> int \<Rightarrow> int \<Rightarrow> int \<Rightarrow> 'hb"
  hb_append :: "'hb \<Rightarrow> int \<Rightarrow> int list \<Rightarrow> int list \<Rightarrow> 'hb"
  hb_nnz :: "'hb \<Rightarrow> int"
  cs_add :: "'cs \<Rightarrow> int \<Rightarrow> int \<Rightarrow> 'cs"
  cs_verify :: "'cs \<Rightarrow> nat \<Rightarrow> failure option"
  cs_decompressed :: "'cs \<Rightarrow> 'subs"
  hop_name_map :: "'lat \<Rightarrow> 'nm"
  sub_name_map :: "'lat \<Rightarrow> 'nm"
  hopping_family :: "'lat \<Rightarrow> string \<Rightarrow> failure + int"
  symmetry_bool :: "'sym \<Rightarrow> bool"
  symmetry_translations :: "'sym \<Rightarrow> ('lat, 'pos) Foundation \<Rightarrow> 'pos Translation list"

text \<open>\<^verbatim>\<open>num_sites()\<close> of the header: \<^verbatim>\<open>positions.size()\<close>.\<close>

definition num_sites :: "('lat, 'pos, 'cs, 'hb) System \<Rightarrow> int" where
  "num_sites system = int (length (positions system))"

text \<open>
  \<^verbatim>\<open>positions.resize(size)\<close>: an array of the new size;  the content of a reallocated
  array is whatever the allocation holds (the parameter \<open>fill\<close>).
\<close>

definition resize :: "'pos \<Rightarrow> 'pos list \<Rightarrow> nat \<Rightarrow> 'pos list" where
  "resize fill xs n = (if length xs = n then xs else replicate n fill)"

text \<open>
  \<^verbatim>\<open>detail::populate_system\<close>.  The inner function is the body of the lambda given to
  \<^verbatim>\<open>site.for_each_neighbor\<close>, over the neighbours;  the middle one is the loop over the
  sites.  A write \<^verbatim>\<open>positions[index]\<close> outside the array is undefined.
\<close>

fun populate_system_neighbors ::
  "('lat, 'pos, 'cs, 'hb, 'sym, 'nm, 'subs) system_collaborators \<Rightarrow> int
   \<Rightarrow> (int \<times> Hopping) list \<Rightarrow> 'hb \<Rightarrow> 'hb" where
  "populate_system_neighbors Y index [] hb = hb"
| "populate_system_neighbors Y index ((neighbor_index, hopping) # rest) hb =
     (if neighbor_index < 0 then populate_system_neighbors Y index rest hb
      else if \<not> is_conjugate hopping
           then populate_system_neighbors Y index rest
                  (hb_add Y hb (family_id hopping) index neighbor_index)
           else populate_system_neighbors Y index rest hb)"

fun populate_system_sites ::
  "('lat, 'pos, 'cs, 'hb, 'sym, 'nm, 'subs) system_collaborators \<Rightarrow> 'pos Site list
   \<Rightarrow> ('lat, 'pos, 'cs, 'hb) System \<Rightarrow> failure + ('lat, 'pos, 'cs, 'hb) System" where
  "populate_system_sites Y [] system = Inr system"
| "populate_system_sites Y (site # rest) system =
     (let index = finalized_index site in
      if index < 0 then populate_system_sites Y rest system
      else if \<not> nat index < length (positions system) then Inl out_of_bounds
      else
        let system1 = system\<lparr>positions := (positions system)[nat index := get_position site]\<rparr>;
            system2 = system1\<lparr>compressed_sublattices :=
                        cs_add Y (compressed_sublattices system1) (get_alias_id site)
                          (get_norb site)\<rparr>;
            system3 = system2\<lparr>hopping_blocks :=
                        populate_system_neighbors Y index (neighbors site)
                          (System.hopping_blocks system2)\<rparr>
        in populate_system_sites Y rest system3)"

definition populate_system ::
  "('lat, 'pos, 'cs, 'hb, 'sym, 'nm, 'subs) system_collaborators
   \<Rightarrow> ('lat, 'pos, 'cs, 'hb) System \<Rightarrow> ('lat, 'pos) Foundation
   \<Rightarrow> failure + ('lat, 'pos, 'cs, 'hb) System" where
  "populate_system Y system foundation =
     (let size' = finalized_size foundation;
          system1 = system\<lparr>positions := resize (Cartesian_default Y) (positions system) size'\<rparr>;
          system2 = system1\<lparr>hopping_blocks :=
                      HoppingBlocks Y size' (hop_name_map Y (get_lattice foundation))\<rparr>;
          system3 = system2\<lparr>hopping_blocks :=
                      hb_reserve Y (System.hopping_blocks system2)
                        (max_hoppings_per_family foundation)\<rparr>
      in case populate_system_sites Y (sites foundation) system3 of
           Inl e \<Rightarrow> Inl e
         | Inr system4 \<Rightarrow>
             (case cs_verify Y (compressed_sublattices system4) size' of
                Some e \<Rightarrow> Inl e
              | None \<Rightarrow> Inr system4))"

text \<open>
  \<^verbatim>\<open>detail::populate_boundaries\<close>: the lambda over the neighbours of the shifted site, the
  loop over the sites of the boundary slice and the loop over the translations.
\<close>

fun populate_boundaries_neighbors ::
  "('lat, 'pos, 'cs, 'hb, 'sym, 'nm, 'subs) system_collaborators \<Rightarrow> int
   \<Rightarrow> (int \<times> Hopping) list \<Rightarrow> 'hb \<Rightarrow> 'hb" where
  "populate_boundaries_neighbors Y index [] hb = hb"
| "populate_boundaries_neighbors Y index ((neighbor_index, hopping) # rest) hb =
     (if neighbor_index < 0 then populate_boundaries_neighbors Y index rest hb
      else populate_boundaries_neighbors Y index rest
             (hb_add Y hb (family_id hopping) index neighbor_index))"

fun populate_boundaries_sites ::
  "('lat, 'pos, 'cs, 'hb, 'sym, 'nm, 'subs) system_collaborators
   \<Rightarrow> (int \<times> (int \<times> Hopping) list) list \<Rightarrow> 'hb \<Rightarrow> 'hb" where
  "populate_boundaries_sites Y [] hb = hb"
| "populate_boundaries_sites Y ((index, shifted_neighbors) # rest) hb =
     (if index < 0 then populate_boundaries_sites Y rest hb
      else populate_boundaries_sites Y rest
             (populate_boundaries_neighbors Y index shifted_neighbors hb))"

fun populate_boundaries_translations ::
  "('lat, 'pos, 'cs, 'hb, 'sym, 'nm, 'subs) system_collaborators \<Rightarrow> nat \<Rightarrow> 'nm
   \<Rightarrow> 'pos Translation list \<Rightarrow> ('lat, 'pos, 'cs, 'hb) System
   \<Rightarrow> ('lat, 'pos, 'cs, 'hb) System" where
  "populate_boundaries_translations Y size' names [] system = system"
| "populate_boundaries_translations Y size' names (translation # rest) system =
     (let boundary = \<lparr>Boundary.hopping_blocks = HoppingBlocks_default Y,
                       shift = Cartesian_default Y\<rparr>;
          boundary1 = boundary\<lparr>shift := shift_lenght translation\<rparr>;
          boundary2 = boundary1\<lparr>Boundary.hopping_blocks := HoppingBlocks Y size' names\<rparr>;
          boundary3 = boundary2\<lparr>Boundary.hopping_blocks :=
                        populate_boundaries_sites Y (boundary_slice translation)
                          (Boundary.hopping_blocks boundary2)\<rparr>
      in if hb_nnz Y (Boundary.hopping_blocks boundary3) > 0
         then populate_boundaries_translations Y size' names rest
                (system\<lparr>boundaries := boundaries system @ [boundary3]\<rparr>)
         else populate_boundaries_translations Y size' names rest system)"

definition populate_boundaries ::
  "('lat, 'pos, 'cs, 'hb, 'sym, 'nm, 'subs) system_collaborators
   \<Rightarrow> ('lat, 'pos, 'cs, 'hb) System \<Rightarrow> ('lat, 'pos) Foundation \<Rightarrow> 'sym
   \<Rightarrow> ('lat, 'pos, 'cs, 'hb) System" where
  "populate_boundaries Y system foundation symmetry =
     populate_boundaries_translations Y (finalized_size foundation)
       (hop_name_map Y (get_lattice foundation))
       (symmetry_translations Y symmetry foundation) system"

text \<open>\<^verbatim>\<open>detail::add_extra_hoppings\<close>, and the loop over the generators.\<close>

definition add_extra_hoppings ::
  "('lat, 'pos, 'cs, 'hb, 'sym, 'nm, 'subs) system_collaborators
   \<Rightarrow> ('lat, 'pos, 'cs, 'hb) System \<Rightarrow> ('pos, 'subs, 'nm) HoppingGenerator
   \<Rightarrow> failure + ('lat, 'pos, 'cs, 'hb) System" where
  "add_extra_hoppings Y system gen =
     (let sublattices = cs_decompressed Y (compressed_sublattices system) in
      case hopping_family Y (lattice system) (name gen) of
        Inl e \<Rightarrow> Inl e
      | Inr family \<Rightarrow>
          let (from, to) = gen_make gen (positions system) sublattices
                             (sub_name_map Y (lattice system))
          in Inr (system\<lparr>hopping_blocks :=
                    hb_append Y (System.hopping_blocks system) family from to\<rparr>))"

fun add_all_extra_hoppings ::
  "('lat, 'pos, 'cs, 'hb, 'sym, 'nm, 'subs) system_collaborators
   \<Rightarrow> ('pos, 'subs, 'nm) HoppingGenerator list \<Rightarrow> ('lat, 'pos, 'cs, 'hb) System
   \<Rightarrow> failure + ('lat, 'pos, 'cs, 'hb) System" where
  "add_all_extra_hoppings Y [] system = Inr system"
| "add_all_extra_hoppings Y (gen # rest) system =
     (case add_extra_hoppings Y system gen of
        Inl e \<Rightarrow> Inl e
      | Inr system1 \<Rightarrow> add_all_extra_hoppings Y rest system1)"

text \<open>
  The constructor \<^verbatim>\<open>System::System(foundation, symmetry, hopping_generators)\<close>.
  \<open>System_populated\<close> is the constructor up to and including the loop over the generators:
  the system as populated.  \<open>System_ctor\<close> is the whole constructor, ending with the test
  of \<^verbatim>\<open>num_sites()\<close>.  A constructor that throws produces no object.
\<close>

definition System_populated ::
  "('lat, 'pos, 'cs, 'hb, 'sym, 'nm, 'subs) system_collaborators \<Rightarrow> ('lat, 'pos) Foundation
   \<Rightarrow> 'sym \<Rightarrow> ('pos, 'subs, 'nm) HoppingGenerator list
   \<Rightarrow> failure + ('lat, 'pos, 'cs, 'hb) System" where
  "System_populated Y foundation symmetry hopping_generators =
     (let this = \<lparr>lattice = get_lattice foundation, positions = [],
                  compressed_sublattices = CompressedSublattices_default Y,
                  hopping_blocks = HoppingBlocks_default Y, boundaries = []\<rparr>
      in case populate_system Y this foundation of
           Inl e \<Rightarrow> Inl e
         | Inr this1 \<Rightarrow>
             let this2 = (if symmetry_bool Y symmetry
                          then populate_boundaries Y this1 foundation symmetry else this1)
             in add_all_extra_hoppings Y hopping_generators this2)"

definition System_ctor ::
  "('lat, 'pos, 'cs, 'hb, 'sym, 'nm, 'subs) system_collaborators \<Rightarrow> ('lat, 'pos) Foundation
   \<Rightarrow> 'sym \<Rightarrow> ('pos, 'subs, 'nm) HoppingGenerator list
   \<Rightarrow> failure + ('lat, 'pos, 'cs, 'hb) System" where
  "System_ctor Y foundation symmetry hopping_generators =
     (case System_populated Y foundation symmetry hopping_generators of
        Inl e \<Rightarrow> Inl e
      | Inr this \<Rightarrow>
          if num_sites this = 0 then Inl (runtime_error ''Impossible system: 0 sites'')
          else Inr this)"

section \<open>Sample collaborators\<close>

text \<open>
  A small concrete instance of every parameter, on which the statements below are
  evaluated.  The matrix is a number, an array of moments is a single integer, the
  optimised matrix remembers the matrix and the indices it was last optimised for, the
  bounds are a pair of energies, the generator counts the starters it has handed out.
\<close>

definition sample_collaborators ::
  "(nat, double \<times> double, nat \<times> Indices option, unit, int, int, int list, int, nat, nat, unit)
     collaborators" where
  "sample_collaborators =
     \<lparr>Bounds_auto = (\<lambda>m p. (Finite (- 1), Finite 1)),
      Bounds_fixed = (\<lambda>lo hi. (lo, hi)),
      scaling_factors = (\<lambda>b. (\<lparr>scale_a = Finite 1, scale_b = Finite 0\<rparr>, b)),
      OptimizedHamiltonian = (\<lambda>m fmt r. (m, None)),
      reorder = optimal_size,
      Stats_default = \<lparr>multiplier = 1, moments_timer = 0\<rparr>,
      required_num_moments = (\<lambda>k d. 4),
      kernel_apply = (\<lambda>k a. a),
      double_div = (\<lambda>x y. x),
      optimize_for = (\<lambda>o' i sc. (fst o', Some i)),
      populate_stats = (\<lambda>o' st n alg. st),
      idx = (\<lambda>o'. case snd o' of None \<Rightarrow> \<lparr>row = 0, cols = [0]\<rparr> | Some i \<Rightarrow> i),
      is_diagonal = (\<lambda>i. cols i = [row i]),
      tic = Suc,
      toc = Suc,
      DiagonalMoments = (\<lambda>n. 0),
      diagonal_get = (\<lambda>d. d),
      OffDiagonalMoments = (\<lambda>n i. map (\<lambda>c. 0) (cols i)),
      off_diagonal_get = (\<lambda>f. f),
      exval_starter = (\<lambda>o'. 1),
      random_starter = (\<lambda>o' g. (int g, Suc g)),
      mt19937 = 5,
      compute_diagonal = (\<lambda>d v o' alg. v),
      compute_off_diagonal = (\<lambda>f v o' alg. map (\<lambda>c. v) f),
      array_real = (\<lambda>a. [Finite (of_int a)]),
      array_add = (\<lambda>x y. x + y),
      array_div = (\<lambda>a d. case d of Finite r \<Rightarrow> a div \<lfloor>r\<rfloor> | _ \<Rightarrow> 0),
      real_t_of_int = (\<lambda>n. Finite (of_int n)),
      reconstruct = (\<lambda>xs energy sc. xs),
      reconstruct_greens = (\<lambda>a energy sc. [(Finite (of_int a), Finite 0)])\<rparr>"

definition sample_config :: "double \<Rightarrow> double \<Rightarrow> unit Config" where
  "sample_config lo hi =
     \<lparr>min_energy = lo, max_energy = hi, lanczos_precision = Finite 0, matrix_format = CSR,
      algorithm = \<lparr>optimal_size = True\<rparr>, kernel = (), num_random = 3\<rparr>"

definition sample_strategy ::
  "double \<Rightarrow> double \<Rightarrow> (nat, unit, double \<times> double, nat \<times> Indices option, nat Stats) Strategy"
  where
  "sample_strategy lo hi =
     \<lparr>hamiltonian = 7, config = sample_config lo hi,
      bounds = reset_bounds sample_collaborators 7 (sample_config lo hi),
      optimized_hamiltonian = (7, None), stats = \<lparr>multiplier = 1, moments_timer = 0\<rparr>\<rparr>"

definition sample_system_collaborators ::
  "(unit, int, (int \<times> int) list, (int \<times> int \<times> int) list, bool, unit, unit)
     system_collaborators" where
  "sample_system_collaborators =
     \<lparr>Cartesian_default = 0,
      CompressedSublattices_default = [],
      HoppingBlocks_default = [],
      HoppingBlocks = (\<lambda>n names. []),
      hb_reserve = (\<lambda>hb r. hb),
      hb_add = (\<lambda>hb family i j. hb @ [(family, i, j)]),
      hb_append = (\<lambda>hb family from to. hb @ map (\<lambda>(i, j). (family, i, j)) (zip from to)),
      hb_nnz = (\<lambda>hb. int (length hb)),
      cs_add = (\<lambda>cs alias' n. cs @ [(alias', n)]),
      cs_verify = (\<lambda>cs n. if length cs = n then None
                         else Some (runtime_error ''CompressedSublattices: size mismatch'')),
      cs_decompressed = (\<lambda>cs. ()),
      hop_name_map = (\<lambda>l. ()),
      sub_name_map = (\<lambda>l. ()),
      hopping_family = (\<lambda>l n. Inr 0),
      symmetry_bool = (\<lambda>b. b),
      symmetry_translations = (\<lambda>b f. [])\<rparr>"

definition sample_foundation :: "int Site list \<Rightarrow> (unit, int) Foundation" where
  "sample_foundation ss =
     \<lparr>get_lattice = (), finalized_size = length (filter (\<lambda>s. 0 \<le> finalized_index s) ss),
      max_hoppings_per_family = [], sites = ss\<rparr>"

definition sample_site :: "int \<Rightarrow> int Site" where
  "sample_site i =
     \<lparr>finalized_index = i, get_position = 10 * i, get_alias_id = 0, get_norb = 1,
      neighbors = []\<rparr>"



section \<open>Properties of the loop splitting\<close>

text \<open>
  The recursive equations of the loops are applied one step at a time in the proofs below.
\<close>

declare peel_loop.simps [simp del] vec_loop.simps [simp del] scalar_loop.simps [simp del]

lemma peel_loop_bounds: "s \<le> e \<Longrightarrow> s \<le> peel_loop sizeof_scalar p s e \<and> peel_loop sizeof_scalar p s e \<le> e"
proof (induction sizeof_scalar p s e rule: peel_loop.induct)
  case (1 sizeof_scalar p pe e)
  show ?case
  proof (cases "\<not> is_aligned align_bytes (ptr_add sizeof_scalar p pe) \<and> pe < e")
    case True
    then have "pe + 1 \<le> e" by simp
    with 1 True have "pe + 1 \<le> peel_loop sizeof_scalar p (pe + 1) e \<and> peel_loop sizeof_scalar p (pe + 1) e \<le> e"
      by blast
    moreover have "peel_loop sizeof_scalar p pe e = peel_loop sizeof_scalar p (pe + 1) e"
      using True by (subst peel_loop.simps) simp
    ultimately show ?thesis by simp
  next
    case False
    then have "peel_loop sizeof_scalar p pe e = pe"
      by (subst peel_loop.simps) auto
    with 1 show ?thesis by simp
  qed
qed

lemma peel_loop_aligned:
  "peel_loop sizeof_scalar p s e = pe \<Longrightarrow> is_aligned align_bytes (ptr_add sizeof_scalar p pe) \<or> \<not> pe < e"
proof (induction sizeof_scalar p s e rule: peel_loop.induct)
  case (1 sizeof_scalar p s e)
  show ?case
  proof (cases "\<not> is_aligned align_bytes (ptr_add sizeof_scalar p s) \<and> s < e")
    case True
    then have "peel_loop sizeof_scalar p s e = peel_loop sizeof_scalar p (s + 1) e"
      by (subst peel_loop.simps) simp
    with 1 True show ?thesis by simp
  next
    case False
    then have "peel_loop sizeof_scalar p s e = s"
      by (subst peel_loop.simps) auto
    with 1 False show ?thesis by auto
  qed
qed

lemma smod_eq_0_iff_dvd: "(a smod b = 0) = (b dvd a)" for a b :: int
proof (cases "a = 0")
  case True
  then show ?thesis by (simp add: smod_int_alt_def)
next
  case False
  then have "(a smod b = 0) = (\<bar>a\<bar> mod \<bar>b\<bar> = 0)"
    by (simp add: smod_int_alt_def sgn_if)
  also have "\<dots> = (\<bar>b\<bar> dvd \<bar>a\<bar>)"
    by (simp only: dvd_eq_mod_eq_0)
  also have "\<dots> = (b dvd a)"
    by simp
  finally show ?thesis .
qed

lemma vec_loop_result:
  "1 \<le> step \<Longrightarrow> is_int pe \<Longrightarrow> pe \<le> ve \<Longrightarrow> ve - pe \<le> INT_MAX \<Longrightarrow> ve \<le> INT_MAX \<Longrightarrow>
   \<exists>v. vec_loop step pe ve = Inr v \<and> pe \<le> v \<and> v \<le> ve \<and> step dvd (v - pe) \<and> ve - v < step"
proof (induction step pe ve rule: vec_loop.induct)
  case (1 step pe ve)
  have rng: "is_int (ve - pe)"
    using 1(3,4,5) by (simp add: is_int_def INT_MIN_def)
  have nz: "step \<noteq> 0" "step \<noteq> - 1"
    using 1(2) by simp_all
  show ?case
  proof (cases "(ve - pe) smod step \<noteq> 0")
    case True
    then have "ve - pe \<noteq> 0" by (auto simp: smod_int_alt_def)
    with 1(4) have lt: "pe \<le> ve - 1" by simp
    have rng1: "is_int (ve - 1)"
      using lt 1(3,6) by (simp add: is_int_def)
    have "\<exists>v. vec_loop step pe (ve - 1) = Inr v \<and> pe \<le> v \<and> v \<le> ve - 1 \<and> step dvd (v - pe) \<and> ve - 1 - v < step"
      using 1(1) [OF _ _ _ True rng1 1(2,3) lt] rng nz 1(5,6) by simp
    then obtain v where v: "vec_loop step pe (ve - 1) = Inr v" "pe \<le> v" "v \<le> ve - 1"
      "step dvd (v - pe)" "ve - 1 - v < step" by blast
    have eq: "vec_loop step pe ve = vec_loop step pe (ve - 1)"
      using rng nz True rng1 by (subst vec_loop.simps) simp
    have "ve - v < step"
    proof (rule ccontr)
      assume "\<not> ve - v < step"
      with v(5) have "ve - v = step" by simp
      then have e: "ve - pe = (v - pe) + step" by simp
      have "step dvd ((v - pe) + step)" using v(4) by (rule dvd_add) simp
      then have "step dvd (ve - pe)" by (simp only: e)
      with True show False by (simp add: smod_eq_0_iff_dvd)
    qed
    with v eq show ?thesis by auto
  next
    case False
    then have "vec_loop step pe ve = Inr ve"
      using rng nz by (subst vec_loop.simps) simp
    moreover have "step dvd (ve - pe)"
      using False by (simp add: smod_eq_0_iff_dvd)
    ultimately show ?thesis using 1(2,4) by simp
  qed
qed

lemma scalar_loop_trace:
  "scalar_loop record_scalar i hi tr = tr @ map Scalar [i..hi - 1]"
proof (induction record_scalar i hi tr rule: scalar_loop.induct)
  case (1 i hi tr)
  show ?case
  proof (cases "i < hi")
    case True
    then have "[i..hi - 1] = i # [i + 1..hi - 1]"
      by (simp add: upto_rec1)
    with 1 True show ?thesis
      by (subst scalar_loop.simps) (simp add: record_scalar_def)
  next
    case False
    then show ?thesis
      by (subst scalar_loop.simps) simp
  qed
qed

lemma vector_offsets_step:
  assumes "1 \<le> step" "step dvd (ve - i)" "i < ve"
  shows "vector_offsets step i ve = i # vector_offsets step (i + step) ve"
proof -
  from assms obtain q where q: "ve - i = step * q" by (auto simp: dvd_def)
  with assms have qpos: "1 \<le> q"
    by (smt (verit) mult_le_0_iff)
  have d1: "(ve - i) div step = q" using q assms(1) by simp
  have "ve - (i + step) = step * (q - 1)" using q by (simp add: algebra_simps)
  then have d2: "(ve - (i + step)) div step = q - 1" using assms(1) by simp
  have n: "nat q = Suc (nat (q - 1))" using qpos by simp
  have "[0..<Suc (nat (q - 1))] = 0 # map Suc [0..<nat (q - 1)]"
    by (simp add: upt_conv_Cons map_Suc_upt del: upt_Suc)
  then show ?thesis
    unfolding vector_offsets_def d1 d2 n
    by (simp add: algebra_simps del: upt_Suc)
qed

lemma vector_offsets_empty: "\<not> i < ve \<Longrightarrow> 1 \<le> step \<Longrightarrow> vector_offsets step i ve = []"
proof -
  assume a: "\<not> i < ve" "1 \<le> step"
  then have "(ve - i) div step \<le> 0 div step"
    by (intro zdiv_mono1) simp_all
  then show ?thesis by (simp add: vector_offsets_def)
qed


lemma dvd_pos_step_le:
  fixes step d :: int
  assumes "1 \<le> step" "step dvd d" "0 < d"
  shows "step \<le> d"
  using assms by (simp add: zdvd_imp_le)

lemma vector_loop_trace:
  "1 \<le> step \<Longrightarrow> step dvd (ve - i) \<Longrightarrow> is_int i \<Longrightarrow> is_int ve \<Longrightarrow>
   vector_loop step record_vector i ve tr
     = Some (Inr (tr @ map Vector (vector_offsets step i ve)))"
proof (induction "nat (ve - i)" arbitrary: i tr rule: less_induct)
  case less
  show ?case
  proof (cases "i < ve")
    case True
    then have le: "i + step \<le> ve"
      using dvd_pos_step_le [OF less(2,3)] by simp
    have rng: "is_int (i + step)"
      using le less(2,4,5) by (simp add: is_int_def)
    have dv: "step dvd (ve - (i + step))"
    proof -
      have "step dvd ((ve - i) - step)" using less(3) by (rule dvd_diff) simp
      then show ?thesis by (simp add: algebra_simps)
    qed
    have "nat (ve - (i + step)) < nat (ve - i)"
      using True less(2) by simp
    then have ih: "vector_loop step record_vector (i + step) ve (record_vector i tr)
        = Some (Inr ((record_vector i tr) @ map Vector (vector_offsets step (i + step) ve)))"
      using less(1) [OF _ less(2) dv rng less(5)] by blast
    have "vector_loop step record_vector i ve tr
        = vector_loop step record_vector (i + step) ve (record_vector i tr)"
      using True rng by (subst vector_loop.simps) simp
    with ih show ?thesis
      by (simp add: vector_offsets_step [OF less(2,3) True] record_vector_def)
  next
    case False
    then show ?thesis
      using less(2) by (subst vector_loop.simps) (simp add: vector_offsets_empty)
  qed
qed

lemma covered_vector_offsets:
  "1 \<le> step \<Longrightarrow> step dvd (ve - i) \<Longrightarrow>
   concat (map (covered step) (map Vector (vector_offsets step i ve))) = [i..ve - 1]"
proof (induction "nat (ve - i)" arbitrary: i rule: less_induct)
  case less
  show ?case
  proof (cases "i < ve")
    case True
    then have le: "i + step \<le> ve"
      using dvd_pos_step_le [OF less(2,3)] by simp
    have dv: "step dvd (ve - (i + step))"
    proof -
      have "step dvd ((ve - i) - step)" using less(3) by (rule dvd_diff) simp
      then show ?thesis by (simp add: algebra_simps)
    qed
    have "nat (ve - (i + step)) < nat (ve - i)"
      using True less(2) by simp
    then have ih: "concat (map (covered step) (map Vector (vector_offsets step (i + step) ve)))
        = [i + step..ve - 1]"
      using less(1) [OF _ less(2) dv] by blast
    have split: "[i..ve - 1] = [i..i + step - 1] @ [i + step..ve - 1]"
    proof (cases "i + step = ve")
      case True
      then show ?thesis by simp
    next
      case False
      with le have "i + step \<le> ve - 1" by simp
      then show ?thesis
        using less(2) upto_split1 [of i "i + step" "ve - 1"] by simp
    qed
    show ?thesis
      using ih by (simp add: vector_offsets_step [OF less(2,3) True] split)
  next
    case False
    then show ?thesis
      using less(2) by (simp add: vector_offsets_empty)
  qed
qed

lemma upto_three:
  fixes s pe ve e :: int
  assumes "s \<le> pe" "pe \<le> ve" "ve \<le> e"
  shows "[s..pe - 1] @ [pe..ve - 1] @ [ve..e - 1] = [s..e - 1]"
proof -
  have a: "[pe..ve - 1] @ [ve..e - 1] = [pe..e - 1]"
  proof (cases "ve \<le> e - 1")
    case True
    then show ?thesis using assms upto_split1 [of pe ve "e - 1"] by simp
  next
    case False
    with assms have "ve = e" by simp
    then show ?thesis by simp
  qed
  have b: "[s..pe - 1] @ [pe..e - 1] = [s..e - 1]"
  proof (cases "pe \<le> e - 1")
    case True
    then show ?thesis using assms upto_split1 [of s pe "e - 1"] by simp
  next
    case False
    with assms have "pe = e" by simp
    then show ?thesis by simp
  qed
  show ?thesis by (simp only: a b)
qed

lemma for_each_trace:
  assumes "1 \<le> step" "s \<le> pe" "pe \<le> ve" "ve \<le> e" "step dvd (ve - pe)" "is_int s" "is_int e"
  shows "for_each step record_scalar record_vector
           \<lparr>start = s, peel_end = pe, vec_end = ve, end' = e\<rparr> []
         = Some (Inr (map Scalar [s..pe - 1] @ map Vector (vector_offsets step pe ve)
                      @ map Scalar [ve..e - 1]))"
proof -
  have pe: "is_int pe" and ve: "is_int ve"
    using assms by (simp_all add: is_int_def)
  show ?thesis
    by (simp add: for_each_def scalar_loop_trace vector_loop_trace [OF assms(1,5) pe ve])
qed

lemma covered_scalars: "concat (map (covered step) (map Scalar xs)) = xs"
  by (induction xs) simp_all

text \<open>
  Claim C10, for bounds whose distance fits an \<^verbatim>\<open>int\<close>.  For every pointer (element size
  \<open>sizeof_scalar\<close>, address \<open>p\<close>), every step of at least 1 and all \<^verbatim>\<open>int\<close> bounds
  \<open>s \<le> e\<close> with \<open>e - s \<le> INT_MAX\<close> (in particular whenever \<open>0 \<le> s\<close>), \<open>split_loop\<close>
  returns sections with \<open>s \<le> peel_end \<le> vec_end \<le> e\<close> and \<open>vec_end - peel_end\<close>
  divisible by the step;  \<open>for_each\<close> on these sections returns, having applied the scalar
  body to each index of \<open>[s, peel_end)\<close> and of \<open>[vec_end, e)\<close> and the vector body at each
  multiple-of-step offset of \<open>[peel_end, vec_end)\<close>, in this order, and the indices handled
  by these calls are exactly \<open>s, s + 1, \<dots>, e - 1\<close>, each once.
\<close>

theorem split_loop_sections:
  assumes "1 \<le> step" and "is_int s" and "is_int e" and "s \<le> e" and "e - s \<le> INT_MAX"
  shows "\<exists>sl tr. split_loop sizeof_scalar step p s e = Inr sl
           \<and> start sl = s \<and> end' sl = e
           \<and> s \<le> peel_end sl \<and> peel_end sl \<le> vec_end sl \<and> vec_end sl \<le> e
           \<and> step dvd (vec_end sl - peel_end sl)
           \<and> for_each step record_scalar record_vector sl [] = Some (Inr tr)
           \<and> tr = map Scalar [s..peel_end sl - 1]
                  @ map Vector (vector_offsets step (peel_end sl) (vec_end sl))
                  @ map Scalar [vec_end sl..e - 1]
           \<and> concat (map (covered step) tr) = [s..e - 1]"
proof -
  define pe where "pe = peel_loop sizeof_scalar p s e"
  have pe: "s \<le> pe" "pe \<le> e"
    using peel_loop_bounds [OF assms(4), of sizeof_scalar p] by (simp_all add: pe_def)
  have pe_int: "is_int pe"
    using pe assms(2,3) by (simp add: is_int_def)
  have "e - pe \<le> INT_MAX" "e \<le> INT_MAX"
    using pe assms(3,5) by (simp_all add: is_int_def)
  from vec_loop_result [OF assms(1) pe_int pe(2) this]
  obtain ve where ve: "vec_loop step pe e = Inr ve" "pe \<le> ve" "ve \<le> e" "step dvd (ve - pe)"
    by blast
  let ?sl = "\<lparr>start = s, peel_end = pe, vec_end = ve, end' = e\<rparr>"
  let ?tr = "map Scalar [s..pe - 1] @ map Vector (vector_offsets step pe ve)
             @ map Scalar [ve..e - 1]"
  have sl: "split_loop sizeof_scalar step p s e = Inr ?sl"
    using ve(1) by (simp add: split_loop_def pe_def [symmetric])
  have run: "for_each step record_scalar record_vector ?sl [] = Some (Inr ?tr)"
    by (rule for_each_trace [OF assms(1) pe(1) ve(2,3,4) assms(2,3)])
  have "concat (map (covered step) ?tr) = [s..pe - 1] @ [pe..ve - 1] @ [ve..e - 1]"
    using covered_vector_offsets [OF assms(1) ve(4)]
    by (simp only: map_append concat_append covered_scalars)
  then have cov: "concat (map (covered step) ?tr) = [s..e - 1]"
    by (simp only: upto_three [OF pe(1) ve(2,3)])
  show ?thesis
    using sl run cov pe(1) ve(2,3,4) by (intro exI [of _ ?sl] exI [of _ ?tr]) simp
qed

theorem split_loop_sections_witness:
  "(1::int) \<le> 4 \<and> is_int 0 \<and> is_int 11 \<and> (0::int) \<le> 11 \<and> (11::int) - 0 \<le> INT_MAX
   \<and> (\<exists>sl tr. split_loop 4 4 8 0 11 = Inr sl
           \<and> start sl = 0 \<and> end' sl = 11
           \<and> 0 \<le> peel_end sl \<and> peel_end sl \<le> vec_end sl \<and> vec_end sl \<le> 11
           \<and> 4 dvd (vec_end sl - peel_end sl)
           \<and> for_each 4 record_scalar record_vector sl [] = Some (Inr tr)
           \<and> tr = map Scalar [0..peel_end sl - 1]
                  @ map Vector (vector_offsets 4 (peel_end sl) (vec_end sl))
                  @ map Scalar [vec_end sl..11 - 1]
           \<and> concat (map (covered 4) tr) = [0..11 - 1])"
proof -
  have h: "(1::int) \<le> 4" "is_int 0" "is_int 11" "(0::int) \<le> 11" "(11::int) - 0 \<le> INT_MAX"
    by (simp_all add: is_int_def INT_MIN_def INT_MAX_def)
  from split_loop_sections [OF h, of 4 8] h show ?thesis
    by (intro conjI)
qed

text \<open>
  Claim C10 as stated, for all bounds \<open>s \<le> e\<close>, fails: with \<open>s\<close> the least and \<open>e\<close>
  the greatest \<^verbatim>\<open>int\<close> and a pointer for which \<^verbatim>\<open>p + start\<close> is aligned, the difference
  \<^verbatim>\<open>vec_end - peel_end\<close> overflows and no sections are returned.  (On hardware that wraps
  around, the step 3 leaves \<^verbatim>\<open>vec_end = INT_MAX - 2\<close>, at a distance of \<open>2\<^sup>3\<^sup>2 - 3\<close> from
  \<^verbatim>\<open>peel_end\<close>, which 3 does not divide.)
\<close>

theorem split_loop_overflow_counterexample:
  "(1::int) \<le> 3 \<and> is_int (- 2147483648) \<and> is_int 2147483647
   \<and> (- 2147483648 :: int) \<le> 2147483647
   \<and> split_loop 4 3 17179869184 (- 2147483648) 2147483647 = Inl signed_overflow"
  by (simp add: split_loop_def peel_loop.simps vec_loop.simps is_aligned_def ptr_add_def
        align_bytes_def is_int_def INT_MIN_def INT_MAX_def)

section \<open>Properties of the strategy\<close>

text \<open>
  Claim C1.  For every strategy (with whatever operator, bounds, optimised operator and
  statistics it holds), \<open>change_hamiltonian\<close> with an operator whose scalar field differs
  from the field the strategy is compiled for returns false and returns the strategy
  unchanged: operator, bounds, cached optimised operator and statistics are the old ones.
\<close>

theorem change_hamiltonian_mismatch:
  assumes "scalar_of h \<noteq> scalar_t"
  shows "change_hamiltonian scalar_t X this h = (False, this)
       \<and> hamiltonian (snd (change_hamiltonian scalar_t X this h)) = hamiltonian this
       \<and> bounds (snd (change_hamiltonian scalar_t X this h)) = bounds this
       \<and> optimized_hamiltonian (snd (change_hamiltonian scalar_t X this h))
           = optimized_hamiltonian this
       \<and> stats (snd (change_hamiltonian scalar_t X this h)) = stats this"
  using assms by (simp add: change_hamiltonian_def ham_is_def)

theorem change_hamiltonian_mismatch_witness:
  "scalar_of (Hamiltonian ComplexField (9::nat)) \<noteq> RealField
   \<and> change_hamiltonian RealField sample_collaborators
        (sample_strategy (Finite 0) (Finite 0)) (Hamiltonian ComplexField 9)
      = (False, sample_strategy (Finite 0) (Finite 0))"
proof -
  have h: "scalar_of (Hamiltonian ComplexField (9::nat)) \<noteq> RealField"
    by simp
  from h change_hamiltonian_mismatch [OF h, of sample_collaborators
      "sample_strategy (Finite 0) (Finite 0)"]
  show ?thesis
    by (intro conjI) (rule h, erule conjunct1)
qed

text \<open>
  Claim C2.  For every strategy and every new operator of the strategy's scalar field,
  \<open>change_hamiltonian\<close> returns true, holds the new operator afterwards, has rebuilt the
  optimised operator from it, and has reset the bounds: computed from the new operator
  when the configured energies are equal (no explicit range), and otherwise, whatever the
  new operator is, the bounds fixed by the configured range.  These are the bounds that
  the constructor installs for this configuration, so a strategy that holds them keeps
  them.  Configuration and statistics are untouched.
\<close>

theorem change_hamiltonian_match:
  assumes "scalar_of h = scalar_t"
  shows "fst (change_hamiltonian scalar_t X this h) = True
       \<and> hamiltonian (snd (change_hamiltonian scalar_t X this h)) = matrix_of h
       \<and> optimized_hamiltonian (snd (change_hamiltonian scalar_t X this h))
           = OptimizedHamiltonian X (matrix_of h) (matrix_format (config this))
               (reorder X (algorithm (config this)))
       \<and> bounds (snd (change_hamiltonian scalar_t X this h))
           = (if double_eq (min_energy (config this)) (max_energy (config this))
              then Bounds_auto X (matrix_of h) (lanczos_precision (config this))
              else Bounds_fixed X (min_energy (config this)) (max_energy (config this)))
       \<and> (\<not> double_eq (min_energy (config this)) (max_energy (config this)) \<longrightarrow>
            (\<forall>h0 this0. StrategyTemplate_ctor X h0 (config this) = Inr this0 \<longrightarrow>
               bounds (snd (change_hamiltonian scalar_t X this h)) = bounds this0)
          \<and> (bounds this = Bounds_fixed X (min_energy (config this)) (max_energy (config this))
               \<longrightarrow> bounds (snd (change_hamiltonian scalar_t X this h)) = bounds this))
       \<and> config (snd (change_hamiltonian scalar_t X this h)) = config this
       \<and> stats (snd (change_hamiltonian scalar_t X this h)) = stats this"
  using assms
  by (auto simp: change_hamiltonian_def ham_is_def get_shared_ptr_def reset_bounds_def
        StrategyTemplate_ctor_def Let_def split: if_splits)

theorem change_hamiltonian_match_witness:
  "scalar_of (Hamiltonian RealField (9::nat)) = RealField
   \<and> double_eq (Finite 0) (Finite 0)
   \<and> bounds (snd (change_hamiltonian RealField sample_collaborators
                    (sample_strategy (Finite 0) (Finite 0)) (Hamiltonian RealField 9)))
       = Bounds_auto sample_collaborators 9 (Finite 0)
   \<and> \<not> double_eq (Finite (- 2)) (Finite 2)
   \<and> StrategyTemplate_ctor sample_collaborators 7 (sample_config (Finite (- 2)) (Finite 2))
       = Inr (sample_strategy (Finite (- 2)) (Finite 2))
   \<and> bounds (sample_strategy (Finite (- 2)) (Finite 2)) = (Finite (- 2), Finite 2)
   \<and> fst (change_hamiltonian RealField sample_collaborators
             (sample_strategy (Finite (- 2)) (Finite 2)) (Hamiltonian RealField 9))
   \<and> hamiltonian (snd (change_hamiltonian RealField sample_collaborators
                    (sample_strategy (Finite (- 2)) (Finite 2)) (Hamiltonian RealField 9))) = 9
   \<and> bounds (snd (change_hamiltonian RealField sample_collaborators
                    (sample_strategy (Finite (- 2)) (Finite 2)) (Hamiltonian RealField 9)))
       = (Finite (- 2), Finite 2)"
proof -
  have h: "scalar_of (Hamiltonian RealField (9::nat)) = RealField"
    by simp
  have c: "StrategyTemplate_ctor sample_collaborators 7 (sample_config (Finite (- 2)) (Finite 2))
       = Inr (sample_strategy (Finite (- 2)) (Finite 2))"
    by (simp add: StrategyTemplate_ctor_def sample_strategy_def sample_config_def
          sample_collaborators_def)
  show ?thesis
    using change_hamiltonian_match [OF h, of sample_collaborators
            "sample_strategy (Finite 0) (Finite 0)"]
          change_hamiltonian_match [OF h, of sample_collaborators
            "sample_strategy (Finite (- 2)) (Finite 2)"] c
    by (simp add: sample_strategy_def sample_config_def sample_collaborators_def
          reset_bounds_def)
qed

text \<open>
  Claim C3.  For every configuration whose minimum energy is greater than its maximum
  energy (so an explicit range is given, the two being different), the constructor throws
  \<^verbatim>\<open>std::invalid_argument\<close>: no strategy is produced, in particular none with the two
  bounds swapped.
\<close>

theorem StrategyTemplate_ctor_invalid_range:
  assumes "double_gt (min_energy cfg) (max_energy cfg)"
  shows "StrategyTemplate_ctor X h cfg
           = Inl (invalid_argument ''KPM: Invalid energy range specified (min > max).'')
       \<and> (\<forall>this. StrategyTemplate_ctor X h cfg \<noteq> Inr this)"
  using assms by (simp add: StrategyTemplate_ctor_def)

theorem StrategyTemplate_ctor_invalid_range_witness:
  "double_gt (min_energy (sample_config (Finite 2) (Finite 1)))
     (max_energy (sample_config (Finite 2) (Finite 1)))
   \<and> StrategyTemplate_ctor sample_collaborators 7 (sample_config (Finite 2) (Finite 1))
       = Inl (invalid_argument ''KPM: Invalid energy range specified (min > max).'')"
proof -
  have h: "double_gt (min_energy (sample_config (Finite 2) (Finite 1)))
     (max_energy (sample_config (Finite 2) (Finite 1)))"
    by (simp add: sample_config_def)
  from h StrategyTemplate_ctor_invalid_range [OF h, of sample_collaborators 7] show ?thesis
    by (intro conjI) (rule h, erule conjunct1)
qed

text \<open>
  Claim C4.  The collaborators are taken with the behaviour the specification gives them:
  the bounds answer a repeated request for the scaling factors with the same factors and
  do not change any more, and optimising the operator again for the indices and factors it
  is already optimised for changes nothing.  Then for every strategy, index, energy grid
  and broadening, a second call of \<open>ldos\<close> with the same arguments, on the strategy as the
  first call left it (statistics advanced, optimised operator and bounds cached), returns
  the same array as the first call.
\<close>

theorem ldos_idempotent:
  assumes "\<forall>b. scaling_factors X (snd (scaling_factors X b)) = scaling_factors X b"
    and "\<forall>oh i sc. optimize_for X (optimize_for X oh i sc) i sc = optimize_for X oh i sc"
  shows "fst (ldos X (snd (ldos X this index energy broadening)) index energy broadening)
         = fst (ldos X this index energy broadening)"
proof -
  obtain sc b1 where s: "scaling_factors X (bounds this) = (sc, b1)"
    by (cases "scaling_factors X (bounds this)")
  have s2: "scaling_factors X b1 = (sc, b1)"
    using assms(1) [rule_format, of "bounds this"] s by simp
  show ?thesis
    by (simp add: ldos_def s s2 assms(2) Let_def)
qed

lemma sample_scaling_factors_stable:
  "\<forall>b. scaling_factors sample_collaborators (snd (scaling_factors sample_collaborators b))
        = scaling_factors sample_collaborators b"
  by (simp add: sample_collaborators_def)

lemma sample_optimize_for_idempotent:
  "\<forall>oh i sc. optimize_for sample_collaborators (optimize_for sample_collaborators oh i sc) i sc
        = optimize_for sample_collaborators oh i sc"
  by (simp add: sample_collaborators_def)

theorem ldos_idempotent_witness:
  "(\<forall>b. scaling_factors sample_collaborators (snd (scaling_factors sample_collaborators b))
        = scaling_factors sample_collaborators b)
   \<and> (\<forall>oh i sc. optimize_for sample_collaborators (optimize_for sample_collaborators oh i sc) i sc
        = optimize_for sample_collaborators oh i sc)
   \<and> fst (ldos sample_collaborators
            (snd (ldos sample_collaborators (sample_strategy (Finite 0) (Finite 0)) 3
                    [Finite 0, Finite 1] (Finite 2)))
            3 [Finite 0, Finite 1] (Finite 2))
       = fst (ldos sample_collaborators (sample_strategy (Finite 0) (Finite 0)) 3
                [Finite 0, Finite 1] (Finite 2))
   \<and> stats (snd (ldos sample_collaborators (sample_strategy (Finite 0) (Finite 0)) 3
                    [Finite 0, Finite 1] (Finite 2)))
       \<noteq> stats (sample_strategy (Finite 0) (Finite 0))"
proof -
  have "stats (snd (ldos sample_collaborators (sample_strategy (Finite 0) (Finite 0)) 3
                    [Finite 0, Finite 1] (Finite 2)))
       \<noteq> stats (sample_strategy (Finite 0) (Finite 0))"
    by (simp add: ldos_def sample_strategy_def sample_collaborators_def Let_def)
  with sample_scaling_factors_stable sample_optimize_for_idempotent
    ldos_idempotent [OF sample_scaling_factors_stable sample_optimize_for_idempotent,
      of "sample_strategy (Finite 0) (Finite 0)" 3 "[Finite 0, Finite 1]" "Finite 2"]
  show ?thesis
    by (intro conjI)
qed

text \<open>
  Claim C5.  The collaborators are taken with the behaviour the specification gives them:
  optimising (a relabelling) keeps the number of queried columns, and off-diagonal moments
  hold one sequence per column.  Then for every row, column, energy grid and broadening,
  \<open>greens_vector\<close> with the single column returns a vector of exactly one array, and
  \<open>greens\<close> returns this array and leaves the strategy in the same state.
\<close>

theorem greens_is_front_of_greens_vector:
  assumes "\<forall>oh i sc. length (cols (idx X (optimize_for X oh i sc))) = length (cols i)"
    and "\<forall>n i v oh alg.
           length (off_diagonal_get X (compute_off_diagonal X (OffDiagonalMoments X n i) v oh alg))
           = length (cols i)"
  shows "\<exists>g this1. greens_vector X this r [c] energy broadening = Inr ([g], this1)
           \<and> greens X this r c energy broadening = Inr (g, this1)"
proof -
  obtain sc b1 where s: "scaling_factors X (bounds this) = (sc, b1)"
    by (cases "scaling_factors X (bounds this)")
  let ?oh = "optimize_for X (optimized_hamiltonian this) \<lparr>row = r, cols = [c]\<rparr> sc"
  have len: "length (off_diagonal_get X (compute_off_diagonal X
               (OffDiagonalMoments X n (idx X ?oh)) v oh alg)) = 1" for n v oh alg
    using assms(2) [rule_format, of n "idx X ?oh" v oh alg]
          assms(1) [rule_format, of "optimized_hamiltonian this" "\<lparr>row = r, cols = [c]\<rparr>" sc]
    by simp
  show ?thesis
  proof (cases "is_diagonal X (idx X ?oh)")
    case True
    then show ?thesis
      by (simp add: greens_def greens_vector_def s Let_def)
  next
    case False
    let ?mv = "off_diagonal_get X (compute_off_diagonal X
                 (OffDiagonalMoments X
                    (required_num_moments X (kernel (config this))
                       (double_div X broadening (scale_a sc)))
                    (idx X ?oh))
                 (exval_starter X ?oh) ?oh (algorithm (config this)))"
    have "length ?mv = 1" by (rule len)
    then obtain x where x: "?mv = [x]"
      by (cases ?mv) simp_all
    with False show ?thesis
      by (simp add: greens_def greens_vector_def s Let_def)
  qed
qed

theorem greens_is_front_of_greens_vector_witness:
  "(\<forall>oh i sc. length (cols (idx sample_collaborators (optimize_for sample_collaborators oh i sc)))
        = length (cols i))
   \<and> (\<forall>n i v oh alg.
         length (off_diagonal_get sample_collaborators (compute_off_diagonal sample_collaborators
                   (OffDiagonalMoments sample_collaborators n i) v oh alg))
         = length (cols i))
   \<and> (\<exists>g this1. greens_vector sample_collaborators (sample_strategy (Finite 0) (Finite 0)) 1 [2]
                    [Finite 0] (Finite 2) = Inr ([g], this1)
           \<and> greens sample_collaborators (sample_strategy (Finite 0) (Finite 0)) 1 2
                    [Finite 0] (Finite 2) = Inr (g, this1))"
proof -
  have a: "\<forall>oh i sc. length (cols (idx sample_collaborators
             (optimize_for sample_collaborators oh i sc))) = length (cols i)"
    by (simp add: sample_collaborators_def)
  have b: "\<forall>n i v oh alg.
         length (off_diagonal_get sample_collaborators (compute_off_diagonal sample_collaborators
                   (OffDiagonalMoments sample_collaborators n i) v oh alg))
         = length (cols i)"
    by (simp add: sample_collaborators_def)
  from a b greens_is_front_of_greens_vector [OF a b,
    of "sample_strategy (Finite 0) (Finite 0)" 1 2 "[Finite 0]" "Finite 2"]
  show ?thesis
    by (intro conjI)
qed

text \<open>
  The loop of \<open>dos\<close> in closed form: the total after the remaining passes is the total so
  far plus the arrays of these passes, added one after the other, and the starters of the
  passes are drawn in turn from the generator the loop is entered with.
\<close>

declare dos_loop.simps [simp del]



lemma dos_loop_total:
  "snd (snd (dos_loop X j n oh alg moments generator t))
     = foldl (array_add X) t
         (passes X oh alg moments (starters X (nat (n - j)) oh generator))"
proof (induction X j n oh alg moments generator t rule: dos_loop.induct)
  case (1 X j n oh alg moments generator t)
  show ?case
  proof (cases "j < n")
    case True
    obtain starter generator1 where r: "random_starter X oh generator = (starter, generator1)"
      by (cases "random_starter X oh generator")
    have k: "nat (n - j) = Suc (nat (n - (j + 1)))"
      using True by simp
    have step: "dos_loop X j n oh alg moments generator t
          = dos_loop X (j + 1) n oh alg (compute_diagonal X moments starter oh alg) generator1
              (array_add X t (diagonal_get X (compute_diagonal X moments starter oh alg)))"
      using True by (subst dos_loop.simps) (simp add: r Let_def)
    have "snd (snd (dos_loop X (j + 1) n oh alg (compute_diagonal X moments starter oh alg)
                      generator1
                      (array_add X t (diagonal_get X (compute_diagonal X moments starter oh alg)))))
          = foldl (array_add X)
              (array_add X t (diagonal_get X (compute_diagonal X moments starter oh alg)))
              (passes X oh alg (compute_diagonal X moments starter oh alg)
                 (starters X (nat (n - (j + 1))) oh generator1))"
      using "1.IH" [OF True r [symmetric] refl refl refl] .
    then show ?thesis
      by (simp only: step k starters.simps passes.simps r Let_def prod.case foldl_Cons)
  next
    case False
    then show ?thesis
      by (subst dos_loop.simps) simp
  qed
qed



lemma dos_closed_form:
  assumes "scaling_factors X (bounds this) = (scale, bounds1)"
  shows "fst (dos X this energy broadening)
     = (let oh = optimize_for X (optimized_hamiltonian this) \<lparr>row = 0, cols = [0]\<rparr> scale;
            alg = (algorithm (config this))\<lparr>optimal_size := False\<rparr>;
            moments = DiagonalMoments X (num_moments_for X this broadening);
            vs = starters X (nat (num_random (config this))) oh (mt19937 X)
        in reconstruct X (array_real X (kernel_apply X (kernel (config this))
             (array_div X (foldl (array_add X) (diagonal_get X moments)
                             (passes X oh alg moments vs))
                (real_t_of_int X (num_random (config this)))))) energy scale)"
proof -
  let ?n = "num_random (config this)"
  let ?N = "num_moments_for X this broadening"
  let ?oh = "optimize_for X (optimized_hamiltonian this) \<lparr>row = 0, cols = [0]\<rparr> scale"
  let ?alg = "(algorithm (config this))\<lparr>optimal_size := False\<rparr>"
  let ?z = "diagonal_get X (DiagonalMoments X ?N)"
  have N: "required_num_moments X (kernel (config this))
             (double_div X broadening (scale_a scale)) = ?N"
    by (simp add: num_moments_for_def assms)
  obtain m1 g1 t1 where dl:
    "dos_loop X 0 ?n ?oh ?alg (DiagonalMoments X ?N) (mt19937 X) ?z = (m1, g1, t1)"
    by (cases "dos_loop X 0 ?n ?oh ?alg (DiagonalMoments X ?N) (mt19937 X) ?z")
  have t1: "t1 = foldl (array_add X) ?z
                   (passes X ?oh ?alg (DiagonalMoments X ?N) (starters X (nat ?n) ?oh (mt19937 X)))"
    using dos_loop_total [of X 0 ?n ?oh ?alg "DiagonalMoments X ?N" "mt19937 X" ?z]
    by (simp add: dl)
  show ?thesis
    by (simp add: dos_def assms N dl Let_def t1 [symmetric])
qed





lemma dos_state:
  assumes "scaling_factors X (bounds this) = (scale, bounds1)"
  shows "bounds (snd (dos X this energy broadening)) = bounds1"
    and "optimized_hamiltonian (snd (dos X this energy broadening))
         = optimize_for X (optimized_hamiltonian this) \<lparr>row = 0, cols = [0]\<rparr> scale"
    and "config (snd (dos X this energy broadening)) = config this"
  by (simp_all add: dos_def assms Let_def split: prod.splits)

text \<open>
  Claim C7, as the code seeds the generator.  The generator of the random starters is a
  local variable of \<open>dos\<close>, default-constructed in every call: it is held neither by the
  strategy instance nor by any state shared between strategies.  So in every call, on
  whatever strategy, the starters are the first \<open>num_random\<close> draws from the default
  generator state \<open>mt19937\<close>, also in a call that follows another one.  The collaborators
  are taken with the behaviour the specification gives them (repeated requests for the
  scaling factors agree, optimising again for the same indices and factors changes
  nothing).  Then a second call of \<open>dos\<close> with the same arguments, on the strategy as the
  first call left it, draws the same starters and returns the same array as the first call.
\<close>

theorem dos_generator_per_call:
  assumes "\<forall>b. scaling_factors X (snd (scaling_factors X b)) = scaling_factors X b"
    and "\<forall>oh i sc. optimize_for X (optimize_for X oh i sc) i sc = optimize_for X oh i sc"
  shows "\<exists>scale bounds1. scaling_factors X (bounds this) = (scale, bounds1)
     \<and> (let oh = optimize_for X (optimized_hamiltonian this) \<lparr>row = 0, cols = [0]\<rparr> scale;
             alg = (algorithm (config this))\<lparr>optimal_size := False\<rparr>;
             moments = DiagonalMoments X (num_moments_for X this broadening);
             vs = starters X (nat (num_random (config this))) oh (mt19937 X);
             result = reconstruct X (array_real X (kernel_apply X (kernel (config this))
                        (array_div X (foldl (array_add X) (diagonal_get X moments)
                                        (passes X oh alg moments vs))
                           (real_t_of_int X (num_random (config this)))))) energy scale
         in fst (dos X this energy broadening) = result
          \<and> fst (dos X (snd (dos X this energy broadening)) energy broadening) = result)"
proof -
  obtain sc b1 where s: "scaling_factors X (bounds this) = (sc, b1)"
    by (cases "scaling_factors X (bounds this)")
  let ?this1 = "snd (dos X this energy broadening)"
  let ?oh = "optimize_for X (optimized_hamiltonian this) \<lparr>row = 0, cols = [0]\<rparr> sc"
  have s1: "scaling_factors X (bounds ?this1) = (sc, b1)"
    using assms(1) [rule_format, of "bounds this"] s by (simp add: dos_state(1) [OF s])
  have oh1: "optimize_for X (optimized_hamiltonian ?this1) \<lparr>row = 0, cols = [0]\<rparr> sc = ?oh"
    by (simp add: dos_state(2) [OF s] assms(2))
  have cfg: "config ?this1 = config this"
    by (rule dos_state(3) [OF s])
  have N1: "num_moments_for X ?this1 broadening = num_moments_for X this broadening"
    by (simp add: num_moments_for_def s s1 cfg)
  have first: "fst (dos X this energy broadening)
     = reconstruct X (array_real X (kernel_apply X (kernel (config this))
         (array_div X (foldl (array_add X)
              (diagonal_get X (DiagonalMoments X (num_moments_for X this broadening)))
              (passes X ?oh ((algorithm (config this))\<lparr>optimal_size := False\<rparr>)
                 (DiagonalMoments X (num_moments_for X this broadening))
                 (starters X (nat (num_random (config this))) ?oh (mt19937 X))))
            (real_t_of_int X (num_random (config this)))))) energy sc"
    using dos_closed_form [OF s, of energy broadening] by (simp add: Let_def)
  have second: "fst (dos X ?this1 energy broadening)
     = reconstruct X (array_real X (kernel_apply X (kernel (config this))
         (array_div X (foldl (array_add X)
              (diagonal_get X (DiagonalMoments X (num_moments_for X this broadening)))
              (passes X ?oh ((algorithm (config this))\<lparr>optimal_size := False\<rparr>)
                 (DiagonalMoments X (num_moments_for X this broadening))
                 (starters X (nat (num_random (config this))) ?oh (mt19937 X))))
            (real_t_of_int X (num_random (config this)))))) energy sc"
    using dos_closed_form [OF s1, of energy broadening] by (simp add: Let_def oh1 cfg N1)
  show ?thesis
    using s first second
    by (intro exI [of _ sc] exI [of _ b1]) (simp add: Let_def)
qed

theorem dos_generator_per_call_witness:
  "(\<forall>b. scaling_factors sample_collaborators (snd (scaling_factors sample_collaborators b))
        = scaling_factors sample_collaborators b)
   \<and> (\<forall>oh i sc. optimize_for sample_collaborators (optimize_for sample_collaborators oh i sc) i sc
        = optimize_for sample_collaborators oh i sc)
   \<and> starters sample_collaborators 3 (7, Some \<lparr>row = 0, cols = [0]\<rparr>)
        (mt19937 sample_collaborators) = [5, 6, 7]
   \<and> fst (dos sample_collaborators (sample_strategy (Finite 0) (Finite 0))
             [Finite 0, Finite 1] (Finite 2)) = [Finite 6]
   \<and> fst (dos sample_collaborators
            (snd (dos sample_collaborators (sample_strategy (Finite 0) (Finite 0))
                    [Finite 0, Finite 1] (Finite 2)))
            [Finite 0, Finite 1] (Finite 2)) = [Finite 6]"
proof -
  have vs: "starters sample_collaborators 3 (7, Some \<lparr>row = 0, cols = [0]\<rparr>)
        (mt19937 sample_collaborators) = [5, 6, 7]"
    by (simp add: numeral_3_eq_3 sample_collaborators_def)
  from dos_generator_per_call [OF sample_scaling_factors_stable sample_optimize_for_idempotent,
      of "sample_strategy (Finite 0) (Finite 0)" "Finite 2" "[Finite 0, Finite 1]"]
  have "fst (dos sample_collaborators (sample_strategy (Finite 0) (Finite 0))
             [Finite 0, Finite 1] (Finite 2)) = [Finite 6]
     \<and> fst (dos sample_collaborators
            (snd (dos sample_collaborators (sample_strategy (Finite 0) (Finite 0))
                    [Finite 0, Finite 1] (Finite 2)))
            [Finite 0, Finite 1] (Finite 2)) = [Finite 6]"
    by (simp add: Let_def num_moments_for_def numeral_3_eq_3 sample_collaborators_def
          sample_strategy_def sample_config_def reset_bounds_def)
  with sample_scaling_factors_stable sample_optimize_for_idempotent vs show ?thesis
    by (intro conjI) simp_all
qed

text \<open>
  Claim C7 as stated, with the generator seeded per strategy instance, fails: a generator
  owned by the instance is advanced by the first query, so the second query draws the
  starters 8, 9, 10 and returns 9, while the second call of \<open>dos\<close> draws 5, 6, 7 again
  and returns 6, as the first call did.
\<close>

theorem dos_seeded_per_instance_counterexample:
  "fst (dos sample_collaborators (sample_strategy (Finite 0) (Finite 0)) [Finite 0] (Finite 2))
     = [Finite 6]
   \<and> fst (dos_seeded_per_instance sample_collaborators
            (sample_strategy (Finite 0) (Finite 0), mt19937 sample_collaborators)
            [Finite 0] (Finite 2)) = [Finite 6]
   \<and> fst (dos sample_collaborators
            (snd (dos sample_collaborators (sample_strategy (Finite 0) (Finite 0))
                    [Finite 0] (Finite 2)))
            [Finite 0] (Finite 2)) = [Finite 6]
   \<and> fst (dos_seeded_per_instance sample_collaborators
            (snd (dos_seeded_per_instance sample_collaborators
                    (sample_strategy (Finite 0) (Finite 0), mt19937 sample_collaborators)
                    [Finite 0] (Finite 2)))
            [Finite 0] (Finite 2)) = [Finite 9]"
  by (simp add: dos_def dos_seeded_per_instance_def dos_loop.simps Let_def
        sample_collaborators_def sample_strategy_def sample_config_def reset_bounds_def)

text \<open>
  Claim C8.  In each of the three queries the number of moments is the kernel's
  \<^verbatim>\<open>required_num_moments\<close> of the requested broadening divided by the scale factor a
  (\<open>num_moments_for\<close>): this is the number the statistics are populated with and the number
  the moments are created with, for \<open>ldos\<close>, for both branches of \<open>greens_vector\<close> and
  for \<open>dos\<close>.
\<close>

theorem queries_use_required_num_moments:
  "\<exists>scale bounds1. scaling_factors X (bounds this) = (scale, bounds1)
     \<and> num_moments_for X this broadening
         = required_num_moments X (kernel (config this))
             (double_div X broadening (scale_a scale))
     \<and> (let oh = optimize_for X (optimized_hamiltonian this) \<lparr>row = index, cols = [index]\<rparr>
                   scale;
             stats1 = populate_stats X oh (stats this) (num_moments_for X this broadening)
                        (algorithm (config this));
             moments = DiagonalMoments X (num_moments_for X this broadening)
         in ldos X this index energy broadening
            = (reconstruct X (array_real X (kernel_apply X (kernel (config this))
                 (diagonal_get X (compute_diagonal X moments (exval_starter X oh) oh
                    (algorithm (config this)))))) energy scale,
               this\<lparr>bounds := bounds1, optimized_hamiltonian := oh,
                    stats := stats1\<lparr>moments_timer := toc X (tic X (moments_timer stats1))\<rparr>\<rparr>))
     \<and> (let oh = optimize_for X (optimized_hamiltonian this) \<lparr>row = r, cols = cs\<rparr> scale;
             stats1 = populate_stats X oh (stats this) (num_moments_for X this broadening)
                        (algorithm (config this));
             moments = DiagonalMoments X (num_moments_for X this broadening);
             moments_vector = OffDiagonalMoments X (num_moments_for X this broadening) (idx X oh);
             this1 = this\<lparr>bounds := bounds1, optimized_hamiltonian := oh,
                         stats := stats1\<lparr>moments_timer := toc X (tic X (moments_timer stats1))\<rparr>\<rparr>
         in greens_vector X this r cs energy broadening
            = (if cs = [] then Inl assertion_failed
               else if is_diagonal X (idx X oh)
               then Inr ([reconstruct_greens X (kernel_apply X (kernel (config this))
                            (diagonal_get X (compute_diagonal X moments (exval_starter X oh) oh
                               (algorithm (config this))))) energy scale], this1)
               else Inr (map (\<lambda>m. reconstruct_greens X (kernel_apply X (kernel (config this)) m)
                                    energy scale)
                           (off_diagonal_get X (compute_off_diagonal X moments_vector
                              (exval_starter X oh) oh (algorithm (config this)))), this1)))
     \<and> (let alg = (algorithm (config this))\<lparr>optimal_size := False\<rparr>;
             oh = optimize_for X (optimized_hamiltonian this) \<lparr>row = 0, cols = [0]\<rparr> scale;
             stats1 = (populate_stats X oh (stats this) (num_moments_for X this broadening) alg)
                        \<lparr>multiplier := num_random (config this)\<rparr>;
             moments = DiagonalMoments X (num_moments_for X this broadening);
             total1 = snd (snd (dos_loop X 0 (num_random (config this)) oh alg moments
                                  (mt19937 X) (diagonal_get X moments)))
         in dos X this energy broadening
            = (reconstruct X (array_real X (kernel_apply X (kernel (config this))
                 (array_div X total1 (real_t_of_int X (num_random (config this))))))
                 energy scale,
               this\<lparr>bounds := bounds1, optimized_hamiltonian := oh,
                    stats := stats1\<lparr>moments_timer := toc X (tic X (moments_timer stats1))\<rparr>\<rparr>))"
proof -
  obtain sc b1 where s: "scaling_factors X (bounds this) = (sc, b1)"
    by (cases "scaling_factors X (bounds this)")
  have N: "num_moments_for X this broadening
           = required_num_moments X (kernel (config this)) (double_div X broadening (scale_a sc))"
    by (simp add: num_moments_for_def s)
  show ?thesis
  proof (intro exI [of _ sc] exI [of _ b1] conjI)
    show "scaling_factors X (bounds this) = (sc, b1)"
      by (fact s)
  next
    show "num_moments_for X this broadening
           = required_num_moments X (kernel (config this))
               (double_div X broadening (scale_a sc))"
      by (fact N)
  qed (simp_all add: ldos_def greens_vector_def dos_def s N [symmetric] Let_def o_def
         split: prod.splits)
qed

section \<open>Properties of the system constructor\<close>

text \<open>
  The number of sites is fixed by the \<^verbatim>\<open>resize\<close> in \<open>populate_system\<close>: the loop over
  the sites writes into the array without changing its size, and neither the boundaries nor
  the extra hoppings touch the positions.
\<close>

lemma length_resize: "length (resize fill xs n) = n"
  by (simp add: resize_def)

lemma populate_system_sites_length:
  "populate_system_sites Y ss system = Inr system'
   \<Longrightarrow> length (positions system') = length (positions system)"
proof (induction ss arbitrary: system)
  case Nil
  then show ?case by simp
next
  case (Cons site rest)
  show ?case
  proof (cases "finalized_index site < 0")
    case True
    with Cons show ?thesis by simp
  next
    case False
    show ?thesis
    proof (cases "nat (finalized_index site) < length (positions system)")
      case True
      with False Cons.prems
      have "length (positions system')
            = length (positions (system\<lparr>positions :=
                (positions system)[nat (finalized_index site) := get_position site]\<rparr>))"
        by (auto simp: Let_def dest!: Cons.IH)
      then show ?thesis by simp
    next
      case False
      with \<open>\<not> finalized_index site < 0\<close> Cons.prems show ?thesis
        by (simp add: Let_def)
    qed
  qed
qed

lemma populate_system_length:
  "populate_system Y system foundation = Inr system'
   \<Longrightarrow> length (positions system') = finalized_size foundation"
  by (auto simp: populate_system_def Let_def length_resize
        split: sum.splits option.splits dest!: populate_system_sites_length)

lemma populate_boundaries_translations_positions:
  "positions (populate_boundaries_translations Y n names ts system) = positions system"
  by (induction ts arbitrary: system) (simp_all add: Let_def)

lemma populate_boundaries_positions:
  "positions (populate_boundaries Y system foundation symmetry) = positions system"
  by (simp add: populate_boundaries_def populate_boundaries_translations_positions)

lemma add_extra_hoppings_positions:
  "add_extra_hoppings Y system gen = Inr system' \<Longrightarrow> positions system' = positions system"
  by (auto simp: add_extra_hoppings_def Let_def split: sum.splits prod.splits)

lemma add_all_extra_hoppings_positions:
  "add_all_extra_hoppings Y gens system = Inr system' \<Longrightarrow> positions system' = positions system"
proof (induction gens arbitrary: system)
  case Nil
  then show ?case by simp
next
  case (Cons gen rest)
  then show ?case
    by (auto split: sum.splits dest!: add_extra_hoppings_positions)
qed

lemma System_populated_num_sites:
  assumes "System_populated Y foundation symmetry hopping_generators = Inr this"
  shows "num_sites this = int (finalized_size foundation)"
proof -
  let ?this0 = "\<lparr>lattice = get_lattice foundation, positions = [],
                  compressed_sublattices = CompressedSublattices_default Y,
                  hopping_blocks = HoppingBlocks_default Y, boundaries = []\<rparr>"
  from assms obtain this1 where p: "populate_system Y ?this0 foundation = Inr this1"
    and a: "add_all_extra_hoppings Y hopping_generators
              (if symmetry_bool Y symmetry
               then populate_boundaries Y this1 foundation symmetry else this1) = Inr this"
    by (auto simp: System_populated_def Let_def split: sum.splits)
  have "positions this = positions this1"
    using add_all_extra_hoppings_positions [OF a]
    by (simp add: populate_boundaries_positions split: if_splits)
  then show ?thesis
    using populate_system_length [OF p] by (simp add: num_sites_def)
qed

text \<open>
  Claim C9.  For every foundation, symmetry and list of hopping generators: if the system
  as populated has zero sites, the constructor throws the runtime error
  \<^verbatim>\<open>Impossible system: 0 sites\<close> and produces no system; the populated system has as
  many sites as the foundation has finalized indices, so a foundation without finalized
  sites never yields a system; and every system that the constructor does produce has at
  least one site.
\<close>

theorem System_ctor_num_sites:
  "(\<forall>populated. System_populated Y foundation symmetry hopping_generators = Inr populated
        \<and> num_sites populated = 0
      \<longrightarrow> System_ctor Y foundation symmetry hopping_generators
            = Inl (runtime_error ''Impossible system: 0 sites''))
   \<and> (finalized_size foundation = 0
      \<longrightarrow> (\<exists>e. System_ctor Y foundation symmetry hopping_generators = Inl e))
   \<and> (\<forall>this. System_ctor Y foundation symmetry hopping_generators = Inr this
      \<longrightarrow> 1 \<le> num_sites this \<and> num_sites this = int (finalized_size foundation))"
proof (intro conjI allI impI)
  fix populated
  assume "System_populated Y foundation symmetry hopping_generators = Inr populated
          \<and> num_sites populated = 0"
  then show "System_ctor Y foundation symmetry hopping_generators
             = Inl (runtime_error ''Impossible system: 0 sites'')"
    by (simp add: System_ctor_def)
next
  assume z: "finalized_size foundation = 0"
  show "\<exists>e. System_ctor Y foundation symmetry hopping_generators = Inl e"
  proof (cases "System_populated Y foundation symmetry hopping_generators")
    case (Inl e)
    then show ?thesis by (simp add: System_ctor_def)
  next
    case (Inr populated)
    with System_populated_num_sites [OF Inr] z show ?thesis
      by (simp add: System_ctor_def)
  qed
next
  fix this
  assume c: "System_ctor Y foundation symmetry hopping_generators = Inr this"
  then have p: "System_populated Y foundation symmetry hopping_generators = Inr this"
    and nz: "num_sites this \<noteq> 0"
    by (auto simp: System_ctor_def split: sum.splits if_splits)
  have "0 \<le> num_sites this"
    by (simp add: num_sites_def)
  with nz show "1 \<le> num_sites this"
    by simp
  show "num_sites this = int (finalized_size foundation)"
    by (rule System_populated_num_sites [OF p])
qed

theorem System_ctor_num_sites_witness:
  "finalized_size (sample_foundation [sample_site (- 1)]) = 0
   \<and> System_populated sample_system_collaborators (sample_foundation [sample_site (- 1)]) False []
       = Inr \<lparr>lattice = (), positions = [], compressed_sublattices = [], hopping_blocks = [],
              boundaries = []\<rparr>
   \<and> System_ctor sample_system_collaborators (sample_foundation [sample_site (- 1)]) False []
       = Inl (runtime_error ''Impossible system: 0 sites'')
   \<and> System_ctor sample_system_collaborators
        (sample_foundation [sample_site 1, sample_site (- 1), sample_site 0]) False []
       = Inr \<lparr>lattice = (), positions = [0, 10], compressed_sublattices = [(0, 1), (0, 1)],
              hopping_blocks = [], boundaries = []\<rparr>
   \<and> 1 \<le> num_sites \<lparr>lattice = (), positions = [0, 10::int],
                      compressed_sublattices = [(0::int, 1::int), (0, 1)],
                      hopping_blocks = [] :: (int \<times> int \<times> int) list, boundaries = []\<rparr>"
proof -
  let ?empty = "\<lparr>lattice = (), positions = [] :: int list,
                  compressed_sublattices = [] :: (int \<times> int) list,
                  hopping_blocks = [] :: (int \<times> int \<times> int) list, boundaries = []\<rparr>"
  let ?two = "\<lparr>lattice = (), positions = [0, 10::int],
                compressed_sublattices = [(0::int, 1::int), (0, 1)],
                hopping_blocks = [] :: (int \<times> int \<times> int) list, boundaries = []\<rparr>"
  have z: "finalized_size (sample_foundation [sample_site (- 1)]) = 0"
    by (simp add: sample_foundation_def sample_site_def)
  have p: "System_populated sample_system_collaborators (sample_foundation [sample_site (- 1)])
             False [] = Inr ?empty"
    by (simp add: System_populated_def populate_system_def resize_def Let_def
          sample_system_collaborators_def sample_foundation_def sample_site_def)
  have n: "num_sites ?empty = 0"
    by (simp add: num_sites_def)
  have c: "System_ctor sample_system_collaborators
        (sample_foundation [sample_site 1, sample_site (- 1), sample_site 0]) False []
       = Inr ?two"
    by (simp add: System_ctor_def System_populated_def populate_system_def resize_def Let_def
          num_sites_def sample_system_collaborators_def sample_foundation_def sample_site_def)
  note t = System_ctor_num_sites [of sample_system_collaborators
             "sample_foundation [sample_site (- 1)]" False "[]"]
  note t2 = System_ctor_num_sites [of sample_system_collaborators
             "sample_foundation [sample_site 1, sample_site (- 1), sample_site 0]" False "[]"]
  have e: "System_ctor sample_system_collaborators (sample_foundation [sample_site (- 1)])
             False [] = Inl (runtime_error ''Impossible system: 0 sites'')"
    using t p n by blast
  have "1 \<le> num_sites ?two"
    using t2 c by blast
  with z p e c show ?thesis
    by (intro conjI)
qed

end
